theory Spec2Isabelle
  imports Complex_Main
begin

section \<open>Data model\<close>

text \<open>
  The module \<open>nac/integrals/nonAdiabaticCoupling.py\<close> works on named tuples
  \<open>AtomXYZ(symbol, xyz)\<close> and \<open>CGF(primitives, orbType)\<close>. A coordinate is a
  three-component array; the primitives of a contracted Gaussian function are unpacked
  by the code as a pair \<open>(coefficients, exponents)\<close> of arrays. The basis set
  \<open>dictCGFs\<close> is a dictionary from atomic symbols to lists of CGFs. The numbers of a
  geometry, of a basis set and of the coefficient matrices are exact reals: the
  development is about the arithmetic the code writes down, not about its rounding.
\<close>

type_synonym vec3 = "real \<times> real \<times> real"

record AtomXYZ =
  symbol :: string
  xyz :: vec3

record CGF =
  primitives :: "real list \<times> real list"
  orbType :: string

type_synonym basis = "string \<rightharpoonup> CGF list"

text \<open>The exceptions the code can raise.\<close>

datatype py_error =
  KeyError | IndexError | UnboundLocalError | ValueError | ZeroDivisionError

text \<open>Python's \<open>xs[k]\<close>: a negative index counts from the end.\<close>

definition getitem :: "'a list \<Rightarrow> int \<Rightarrow> py_error + 'a" where
  "getitem xs k =
     (let n = int (length xs); j = (if k < 0 then n + k else k)
      in if 0 \<le> j \<and> j < n then Inr (xs ! nat j) else Inl IndexError)"

text \<open>Python's \<open>d[k]\<close> on a dictionary.\<close>

definition dict_get :: "('k \<rightharpoonup> 'v) \<Rightarrow> 'k \<Rightarrow> py_error + 'v" where
  "dict_get d k = (case d k of None \<Rightarrow> Inl KeyError | Some v \<Rightarrow> Inr v)"

section \<open>The basis-index lookup\<close>

text \<open>
  The loop of \<open>lookup_cgf\<close> for \<open>i \<noteq> 0\<close>. It runs over the atoms with the running
  total \<open>acc\<close>; \<open>xyz\<close> is the loop variable as the last iteration left it (unbound
  before the first one). The result is the pair of \<open>xyz\<close> and \<open>index\<close> after the
  loop, \<open>index\<close> being bound only when the loop left through \<open>break\<close>. \<open>//\<close> is
  floor division, which is \<open>div\<close> on \<open>int\<close>.
\<close>

fun lookup_loop ::
  "basis \<Rightarrow> int \<Rightarrow> AtomXYZ list \<Rightarrow> int \<Rightarrow> vec3 option \<Rightarrow> py_error + (vec3 option \<times> int option)"
where
  "lookup_loop dictCGFs i [] acc cur = Inr (cur, None)"
| "lookup_loop dictCGFs i (a # atoms) acc cur =
     (case dict_get dictCGFs (symbol a) of
        Inl e \<Rightarrow> Inl e
      | Inr cgfs \<Rightarrow>
          (let len = int (length cgfs);
               acc' = acc + len;
               n = (acc' - 1) div i
           in if n \<noteq> 0 then Inr (Some (xyz a), Some (len - (acc' - i)))
              else lookup_loop dictCGFs i atoms acc' (Some (xyz a))))"

definition lookup_cgf :: "AtomXYZ list \<Rightarrow> basis \<Rightarrow> int \<Rightarrow> py_error + (vec3 \<times> CGF)" where
  "lookup_cgf atoms dictCGFs i =
     (if i = 0 then
        (case getitem atoms 0 of
           Inl e \<Rightarrow> Inl e
         | Inr a0 \<Rightarrow>
             (case dict_get dictCGFs (symbol a0) of
                Inl e \<Rightarrow> Inl e
              | Inr cgfs \<Rightarrow>
                  (case getitem cgfs 0 of
                     Inl e \<Rightarrow> Inl e
                   | Inr c \<Rightarrow> Inr (xyz a0, c))))
      else
        (case lookup_loop dictCGFs i atoms 0 None of
           Inl e \<Rightarrow> Inl e
         | Inr (cur, index) \<Rightarrow>
             (case cur of
                None \<Rightarrow> Inl UnboundLocalError
              | Some p \<Rightarrow>
                  (case getitem atoms 0 of
                     Inl e \<Rightarrow> Inl e
                   | Inr a0 \<Rightarrow>
                       (case dict_get dictCGFs (symbol a0) of
                          Inl e \<Rightarrow> Inl e
                        | Inr cgfs \<Rightarrow>
                            (case index of
                               None \<Rightarrow> Inl UnboundLocalError
                             | Some k \<Rightarrow>
                                 (case getitem cgfs k of
                                    Inl e \<Rightarrow> Inl e
                                  | Inr c \<Rightarrow> Inr (p, c))))))))"

text \<open>
  The dimension of the overlap matrix, as \<open>calculateCoupling3Points\<close> computes it:
  the sum over the atoms of the number of CGFs of their symbol.
\<close>

fun basis_dim :: "basis \<Rightarrow> AtomXYZ list \<Rightarrow> py_error + nat" where
  "basis_dim dictCGFs [] = Inr 0"
| "basis_dim dictCGFs (a # atoms) =
     (case dict_get dictCGFs (symbol a) of
        Inl e \<Rightarrow> Inl e
      | Inr cgfs \<Rightarrow>
          (case basis_dim dictCGFs atoms of
             Inl e \<Rightarrow> Inl e
           | Inr n \<Rightarrow> Inr (length cgfs + n)))"

text \<open>
  The lookup as the specification words it: the atoms own contiguous blocks of global
  indices, in sequence order, the block of an atom having as many indices as its symbol
  has CGFs; index \<open>i\<close> resolves to the coordinate of the atom whose block holds it and
  to the CGF at the offset of \<open>i\<close> in that block, taken from that atom's own list.
\<close>

fun block_lookup :: "AtomXYZ list \<Rightarrow> basis \<Rightarrow> nat \<Rightarrow> (vec3 \<times> CGF) option" where
  "block_lookup [] dictCGFs i = None"
| "block_lookup (a # atoms) dictCGFs i =
     (case dictCGFs (symbol a) of
        None \<Rightarrow> None
      | Some cgfs \<Rightarrow>
          if i < length cgfs then Some (xyz a, cgfs ! i)
          else block_lookup atoms dictCGFs (i - length cgfs))"

section \<open>Arrays\<close>

text \<open>
  A two-dimensional numpy array is a list of rows together with its number of columns,
  so that an array without rows still has a shape. \<open>is_array\<close> says that every row
  has that many entries, as in every numpy array. The entries of a \<open>matrix\<close> are
  reals; the arrays of section \<open>Non-finite values\<close> have entries that can be
  non-finite.
\<close>

datatype 'a ndarray = Matrix (ncols: nat) (rows: "'a list list")

type_synonym matrix = "real ndarray"

definition nrows :: "'a ndarray \<Rightarrow> nat" where
  "nrows m = length (rows m)"

definition entry :: "'a ndarray \<Rightarrow> nat \<Rightarrow> nat \<Rightarrow> 'a" where
  "entry m i j = rows m ! i ! j"

definition is_array :: "'a ndarray \<Rightarrow> bool" where
  "is_array m = list_all (\<lambda>r. length r = ncols m) (rows m)"

definition mk_matrix :: "nat \<Rightarrow> nat \<Rightarrow> (nat \<Rightarrow> nat \<Rightarrow> 'a) \<Rightarrow> 'a ndarray" where
  "mk_matrix r c f = Matrix c (map (\<lambda>i. map (f i) [0..<c]) [0..<r])"

definition np_transpose :: "'a ndarray \<Rightarrow> 'a ndarray" where
  "np_transpose m = mk_matrix (ncols m) (nrows m) (\<lambda>i j. entry m j i)"

text \<open>\<open>np.dot\<close> of two-dimensional arrays; the inner dimensions must agree.\<close>

definition np_dot ::
  "'a::{comm_monoid_add, times} ndarray \<Rightarrow> 'a ndarray \<Rightarrow> py_error + 'a ndarray" where
  "np_dot a b =
     (if ncols a = nrows b
      then Inr (mk_matrix (nrows a) (ncols b) (\<lambda>i j. \<Sum>k<ncols a. entry a i k * entry b k j))
      else Inl ValueError)"

text \<open>
  Elementwise operators broadcast: along each axis the two lengths are equal, or one of
  them is 1 and that operand is repeated.
\<close>

definition broadcast_dim :: "nat \<Rightarrow> nat \<Rightarrow> py_error + nat" where
  "broadcast_dim m n =
     (if m = n then Inr m else if m = 1 then Inr n else if n = 1 then Inr m else Inl ValueError)"

definition np_binop :: "(real \<Rightarrow> real \<Rightarrow> real) \<Rightarrow> matrix \<Rightarrow> matrix \<Rightarrow> py_error + matrix" where
  "np_binop f a b =
     (case broadcast_dim (nrows a) (nrows b) of
        Inl e \<Rightarrow> Inl e
      | Inr r \<Rightarrow>
          (case broadcast_dim (ncols a) (ncols b) of
             Inl e \<Rightarrow> Inl e
           | Inr c \<Rightarrow>
               Inr (mk_matrix r c
                 (\<lambda>i j. f (entry a (if nrows a = 1 then 0 else i) (if ncols a = 1 then 0 else j))
                          (entry b (if nrows b = 1 then 0 else i) (if ncols b = 1 then 0 else j))))))"

definition np_sub :: "matrix \<Rightarrow> matrix \<Rightarrow> py_error + matrix" where
  "np_sub = np_binop (\<lambda>x y. x - y)"

definition np_add :: "matrix \<Rightarrow> matrix \<Rightarrow> py_error + matrix" where
  "np_add = np_binop (\<lambda>x y. x + y)"

definition np_scale :: "real \<Rightarrow> matrix \<Rightarrow> matrix" where
  "np_scale c m = mk_matrix (nrows m) (ncols m) (\<lambda>i j. c * entry m i j)"

text \<open>\<open>np.stack\<close> of a list of one-dimensional arrays: at least one, all of one length.\<close>

definition np_stack :: "'a list list \<Rightarrow> py_error + 'a ndarray" where
  "np_stack xss =
     (case xss of
        [] \<Rightarrow> Inl ValueError
      | xs # _ \<Rightarrow>
          if list_all (\<lambda>ys. length ys = length xs) xss then Inr (Matrix (length xs) xss)
          else Inl ValueError)"

text \<open>
  \<open>np.empty n\<close> allocates without initialising: its contents are arbitrary, and the
  parameter \<open>u\<close> stands for them.
\<close>

definition np_empty :: "(nat \<Rightarrow> 'a) \<Rightarrow> nat \<Rightarrow> 'a list" where
  "np_empty u n = map u [0..<n]"

text \<open>
  The assignment \<open>row[acc : acc + len(vs)] = vs\<close>. The slice is clipped to the array;
  the value must have the length of the slice, or length 1 (then it is repeated).
\<close>

definition slice_assign :: "'a list \<Rightarrow> nat \<Rightarrow> 'a list \<Rightarrow> py_error + 'a list" where
  "slice_assign row acc vs =
     (let lo = min acc (length row);
          hi = min (acc + length vs) (length row);
          m = hi - lo
      in if length vs = m then Inr (take lo row @ vs @ drop hi row)
         else if length vs = 1 then Inr (take lo row @ replicate m (hd vs) @ drop hi row)
         else Inl ValueError)"

text \<open>Evaluating a list of computations in order: the first exception ends it.\<close>

fun collect :: "(py_error + 'a) list \<Rightarrow> py_error + 'a list" where
  "collect [] = Inr []"
| "collect (x # xs) =
     (case x of
        Inl e \<Rightarrow> Inl e
      | Inr v \<Rightarrow> (case collect xs of Inl e \<Rightarrow> Inl e | Inr vs \<Rightarrow> Inr (v # vs)))"

section \<open>The overlap matrix\<close>

text \<open>
  Two functions the module imports are not part of it and are parameters here: the
  one-dimensional Obara-Saika integral \<open>obaraSaikaMultipole\<close>, called with eight
  numbers, and \<open>calcOrbType_Components\<close>, the exponent of an orbital label along an
  axis.
\<close>

record externals =
  obaraSaikaMultipole ::
    "real \<Rightarrow> real \<Rightarrow> real \<Rightarrow> real \<Rightarrow> real \<Rightarrow> real \<Rightarrow> real \<Rightarrow> real \<Rightarrow> real"
  calcOrbType_Components :: "string \<Rightarrow> nat \<Rightarrow> int"

definition vmap :: "(real \<Rightarrow> real) \<Rightarrow> vec3 \<Rightarrow> vec3" where
  "vmap f v = (case v of (x, y, z) \<Rightarrow> (f x, f y, f z))"

definition vzip :: "(real \<Rightarrow> real \<Rightarrow> real) \<Rightarrow> vec3 \<Rightarrow> vec3 \<Rightarrow> vec3" where
  "vzip f v w = (case v of (x, y, z) \<Rightarrow> (case w of (x', y', z') \<Rightarrow> (f x x', f y y', f z z')))"

text \<open>
  \<open>np.apply_along_axis\<close> over the three columns of the stacked array of
  \<open>sab_unfolded\<close>, and \<open>np.prod\<close> of the three results.
\<close>

fun along_columns ::
  "('a \<Rightarrow> 'a \<Rightarrow> 'a \<Rightarrow> 'a \<Rightarrow> 'a \<Rightarrow> 'a \<Rightarrow> 'a \<Rightarrow> 'a \<Rightarrow> 'a) \<Rightarrow>
   'a \<times> 'a \<times> 'a \<Rightarrow> 'a \<times> 'a \<times> 'a \<Rightarrow> 'a \<times> 'a \<times> 'a \<Rightarrow> 'a \<times> 'a \<times> 'a \<Rightarrow>
   'a \<times> 'a \<times> 'a \<Rightarrow> 'a \<times> 'a \<times> 'a \<Rightarrow> 'a \<times> 'a \<times> 'a \<Rightarrow> 'a \<times> 'a \<times> 'a \<Rightarrow>
   'a \<times> 'a \<times> 'a"
where
  "along_columns f (a1, a2, a3) (b1, b2, b3) (c1, c2, c3) (d1, d2, d3)
     (e1, e2, e3) (f1, f2, f3) (g1, g2, g3) (h1, h2, h3) =
     (f a1 b1 c1 d1 e1 f1 g1 h1, f a2 b2 c2 d2 e2 f2 g2 h2, f a3 b3 c3 d3 e3 f3 g3 h3)"

definition np_prod :: "'a::times \<times> 'a \<times> 'a \<Rightarrow> 'a" where
  "np_prod v = (case v of (x, y, z) \<Rightarrow> x * y * z)"

text \<open>
  The product over the axes that \<open>sab_unfolded\<close> computes for two primitives with
  exponents \<open>e1\<close> and \<open>e2\<close> at the centres \<open>r1\<close> and \<open>r2\<close>.
\<close>

definition primitive_product ::
  "externals \<Rightarrow> vec3 \<Rightarrow> vec3 \<Rightarrow> vec3 \<Rightarrow> vec3 \<Rightarrow> real \<Rightarrow> real \<Rightarrow> real" where
  "primitive_product ext r1 r2 ls1 ls2 e1 e2 =
     (let cte = sqrt (pi / (e1 + e2));
          u = e1 * e2 / (e1 + e2);
          p = 1 / (2 * (e1 + e2));
          rp = vmap (\<lambda>x. x / (e1 + e2)) (vzip (\<lambda>x y. x + y) (vmap (\<lambda>x. e1 * x) r1) (vmap (\<lambda>x. e2 * x) r2));
          rab = vzip (\<lambda>x y. x - y) r1 r2;
          rpa = vzip (\<lambda>x y. x - y) rp r1;
          rpb = vzip (\<lambda>x y. x - y) rp r2;
          s00 = vmap (\<lambda>x. cte * exp (- u * x\<^sup>2)) rab;
          ps = (p, p, p)
      in np_prod (along_columns (obaraSaikaMultipole ext) ps s00 rpa rpb rp ls1 ls2 (0, 0, 0)))"

text \<open>
  \<open>sab_unfolded\<close>, as \<open>apply_contraction\<close> calls it: the coefficients and
  exponents are numpy numbers, the entries of a column of the stacked array.
  \<open>math.sqrt\<close> raises ValueError on a negative argument, and nothing else raises.
  With \<open>e1 + e2 = 0\<close> numpy divides by zero without an exception and the code goes
  on with non-finite values, which are not real numbers:
  there the quotients below are HOL's (\<open>x / 0 = 0\<close>), and the real number returned
  stands in for a value that exact arithmetic does not have. \<open>sab_unfolded_fp\<close> in
  section \<open>Non-finite values\<close> is the same function with those values.
\<close>

definition sab_unfolded ::
  "externals \<Rightarrow> vec3 \<Rightarrow> vec3 \<Rightarrow> vec3 \<Rightarrow> vec3 \<Rightarrow> real \<Rightarrow> real \<Rightarrow> real \<Rightarrow> real \<Rightarrow> py_error + real"
where
  "sab_unfolded ext r1 r2 ls1 ls2 c1 c2 e1 e2 =
     (if e1 + e2 < 0 then Inl ValueError
      else Inr (c1 * c2 * primitive_product ext r1 r2 ls1 ls2 e1 e2))"

definition orb_components :: "externals \<Rightarrow> string \<Rightarrow> vec3" where
  "orb_components ext l =
     (real_of_int (calcOrbType_Components ext l 0),
      real_of_int (calcOrbType_Components ext l 1),
      real_of_int (calcOrbType_Components ext l 2))"

text \<open>
  \<open>apply_contraction\<close>. \<open>np.stack\<close> of the four arrays raises ValueError unless they
  have one length; \<open>np.apply_along_axis\<close> raises it when there is no column. The
  columns of the stacked array are the tuples \<open>(csi[k], csj[k], esi[k], esj[k])\<close>.
\<close>

definition apply_contraction ::
  "externals \<Rightarrow> vec3 \<Rightarrow> vec3 \<Rightarrow> string \<Rightarrow> string \<Rightarrow>
   real list \<times> real list \<Rightarrow> real list \<times> real list \<Rightarrow> py_error + real"
where
  "apply_contraction ext xyz_0 xyz_1 li lj ps_i ps_j =
     (case ps_i of (csi, esi) \<Rightarrow>
      case ps_j of (csj, esj) \<Rightarrow>
        if \<not> (length csj = length csi \<and> length esi = length csi \<and> length esj = length csi)
        then Inl ValueError
        else
          (let ls_i = orb_components ext li;
               ls_j = orb_components ext lj
           in if csi = [] then Inl ValueError
              else
                (case collect (map (\<lambda>k. sab_unfolded ext xyz_0 xyz_1 ls_i ls_j
                                           (csi ! k) (csj ! k) (esi ! k) (esj ! k))
                                 [0..<length csi]) of
                   Inl e \<Rightarrow> Inl e
                 | Inr vs \<Rightarrow> Inr (sum_list vs))))"

definition calc_overlap_atom ::
  "externals \<Rightarrow> vec3 \<Rightarrow> CGF \<Rightarrow> vec3 \<Rightarrow> CGF list \<Rightarrow> py_error + real list" where
  "calc_overlap_atom ext xyz_0 cgf_i xyz_1 cgfs_atom_j =
     collect (map (\<lambda>cgf_j. apply_contraction ext xyz_0 xyz_1 (orbType cgf_i) (orbType cgf_j)
                              (primitives cgf_i) (primitives cgf_j))
                  cgfs_atom_j)"

text \<open>The loop of \<open>calc_overlap_row\<close>, with the row and \<open>acc\<close> as its state.\<close>

fun overlap_row_loop ::
  "externals \<Rightarrow> basis \<Rightarrow> vec3 \<Rightarrow> CGF \<Rightarrow> AtomXYZ list \<Rightarrow> real list \<Rightarrow> nat \<Rightarrow> py_error + real list"
where
  "overlap_row_loop ext dictCGFs xyz_0 cgf_i [] row acc = Inr row"
| "overlap_row_loop ext dictCGFs xyz_0 cgf_i (a # mol1) row acc =
     (case dict_get dictCGFs (symbol a) of
        Inl e \<Rightarrow> Inl e
      | Inr cgfs_atom_j \<Rightarrow>
          (case calc_overlap_atom ext xyz_0 cgf_i (xyz a) cgfs_atom_j of
             Inl e \<Rightarrow> Inl e
           | Inr vs \<Rightarrow>
               (case slice_assign row acc vs of
                  Inl e \<Rightarrow> Inl e
                | Inr row' \<Rightarrow>
                    overlap_row_loop ext dictCGFs xyz_0 cgf_i mol1 row'
                      (acc + length cgfs_atom_j))))"

definition calc_overlap_row ::
  "externals \<Rightarrow> (nat \<Rightarrow> real) \<Rightarrow> basis \<Rightarrow> AtomXYZ list \<Rightarrow> nat \<Rightarrow> vec3 \<Rightarrow> CGF \<Rightarrow>
   py_error + real list"
where
  "calc_overlap_row ext u dictCGFs mol1 dimn xyz_0 cgf_i =
     overlap_row_loop ext dictCGFs xyz_0 cgf_i mol1 (np_empty u dimn) 0"

definition apply_nested ::
  "('a \<Rightarrow> 'b \<Rightarrow> py_error + 'c) \<Rightarrow> (int \<Rightarrow> py_error + ('a \<times> 'b)) \<Rightarrow> int \<Rightarrow> py_error + 'c" where
  "apply_nested f g i = (case g i of Inl e \<Rightarrow> Inl e | Inr (x, y) \<Rightarrow> f x y)"

text \<open>
  The rows that \<open>p.map\<close> returns in \<open>calcOverlapMtx\<close>, one for each index of
  \<open>range(dim)\<close>; an exception in a worker is raised again by \<open>map\<close>. \<open>u i\<close> is
  what the uninitialised row \<open>i\<close> holds.
\<close>

definition overlap_rows ::
  "externals \<Rightarrow> (nat \<Rightarrow> nat \<Rightarrow> real) \<Rightarrow> basis \<Rightarrow> nat \<Rightarrow> AtomXYZ list \<Rightarrow> AtomXYZ list \<Rightarrow>
   py_error + real list list"
where
  "overlap_rows ext u dictCGFs dimn mol0 mol1 =
     collect (map (\<lambda>i. apply_nested (calc_overlap_row ext (u i) dictCGFs mol1 dimn)
                          (lookup_cgf mol0 dictCGFs) (int i))
                  [0..<dimn])"

definition calcOverlapMtx ::
  "externals \<Rightarrow> (nat \<Rightarrow> nat \<Rightarrow> real) \<Rightarrow> matrix option \<Rightarrow> basis \<Rightarrow> nat \<Rightarrow>
   AtomXYZ list \<Rightarrow> AtomXYZ list \<Rightarrow> py_error + matrix"
where
  "calcOverlapMtx ext u trans_mtx dictCGFs dimn mol0 mol1 =
     (case overlap_rows ext u dictCGFs dimn mol0 mol1 of
        Inl e \<Rightarrow> Inl e
      | Inr xss \<Rightarrow>
          (case np_stack xss of
             Inl e \<Rightarrow> Inl e
           | Inr suv \<Rightarrow>
               (case trans_mtx of
                  Some t \<Rightarrow>
                    (case np_dot suv (np_transpose t) of
                       Inl e \<Rightarrow> Inl e
                     | Inr m \<Rightarrow> np_dot t m)
                | None \<Rightarrow> Inr suv)))"

text \<open>
  The arrays that the loop of \<open>calc_overlap_row\<close> writes into the row one after the
  other, one for each atom of \<open>mol1\<close>.
\<close>

definition row_blocks ::
  "externals \<Rightarrow> basis \<Rightarrow> vec3 \<Rightarrow> CGF \<Rightarrow> AtomXYZ list \<Rightarrow> py_error + real list list" where
  "row_blocks ext dictCGFs xyz_0 cgf_i mol1 =
     collect (map (\<lambda>a. case dict_get dictCGFs (symbol a) of
                          Inl e \<Rightarrow> Inl e
                        | Inr cgfs_atom_j \<Rightarrow> calc_overlap_atom ext xyz_0 cgf_i (xyz a) cgfs_atom_j)
                  mol1)"

text \<open>The exception that a computation raises, if any.\<close>

definition raised :: "py_error + 'a \<Rightarrow> py_error option" where
  "raised r = (case r of Inl e \<Rightarrow> Some e | Inr v \<Rightarrow> None)"

section \<open>Projection on the molecular orbitals and the coupling\<close>

definition calculate_overlap :: "matrix \<Rightarrow> matrix \<Rightarrow> matrix \<Rightarrow> py_error + matrix" where
  "calculate_overlap suv css0 css1 =
     (let css0T = np_transpose css0
      in case np_dot suv css1 of
           Inl e \<Rightarrow> Inl e
         | Inr m \<Rightarrow> np_dot css0T m)"

definition coordinates_to_numpy :: "AtomXYZ \<Rightarrow> AtomXYZ" where
  "coordinates_to_numpy atom = \<lparr>symbol = symbol atom, xyz = xyz atom\<rparr>"

text \<open>
  \<open>calculateCoupling3Points\<close>. \<open>u 0\<close> and \<open>u 1\<close> are the uninitialised contents of
  the rows of the first and of the second overlap matrix. \<open>dt\<close> is a Python number,
  as the workflow passes it: \<open>1.0 / (4.0 * dt)\<close> raises ZeroDivisionError for
  \<open>dt = 0\<close>, after the overlaps have been computed. (A numpy scalar zero would give
  \<open>inf\<close> instead; such a \<open>dt\<close> is not modelled.)
\<close>

definition calculateCoupling3Points ::
  "externals \<Rightarrow> (nat \<Rightarrow> nat \<Rightarrow> nat \<Rightarrow> real) \<Rightarrow>
   AtomXYZ list \<times> AtomXYZ list \<times> AtomXYZ list \<Rightarrow> matrix \<times> matrix \<times> matrix \<Rightarrow>
   basis \<Rightarrow> real \<Rightarrow> matrix option \<Rightarrow> py_error + matrix"
where
  "calculateCoupling3Points ext u geometries coefficients dictCGFs dt trans_mtx =
     (case geometries of (g0, g1, g2) \<Rightarrow>
      case coefficients of (css0, css1, css2) \<Rightarrow>
        (let mol0 = map coordinates_to_numpy g0;
             mol1 = map coordinates_to_numpy g1;
             mol2 = map coordinates_to_numpy g2
         in case basis_dim dictCGFs mol0 of
              Inl e \<Rightarrow> Inl e
            | Inr dimn \<Rightarrow>
        (case calcOverlapMtx ext (u 0) trans_mtx dictCGFs dimn mol0 mol1 of
           Inl e \<Rightarrow> Inl e
         | Inr suv_0 \<Rightarrow>
        (case calcOverlapMtx ext (u 1) trans_mtx dictCGFs dimn mol1 mol2 of
           Inl e \<Rightarrow> Inl e
         | Inr suv_1 \<Rightarrow>
        (case calculate_overlap suv_0 css0 css1 of
           Inl e \<Rightarrow> Inl e
         | Inr mtx_sji_t0 \<Rightarrow>
        (case calculate_overlap suv_1 css1 css2 of
           Inl e \<Rightarrow> Inl e
         | Inr mtx_sji_t1 \<Rightarrow>
        (case calculate_overlap (np_transpose suv_0) css1 css0 of
           Inl e \<Rightarrow> Inl e
         | Inr mtx_sij_t0 \<Rightarrow>
        (case calculate_overlap (np_transpose suv_1) css2 css1 of
           Inl e \<Rightarrow> Inl e
         | Inr mtx_sij_t1 \<Rightarrow>
        (if 4 * dt = 0 then Inl ZeroDivisionError
         else
           (let cte = 1 / (4 * dt)
            in case np_sub mtx_sji_t1 mtx_sij_t1 of
                 Inl e \<Rightarrow> Inl e
               | Inr d1 \<Rightarrow>
                   (case np_sub mtx_sij_t0 mtx_sji_t0 of
                      Inl e \<Rightarrow> Inl e
                    | Inr d0 \<Rightarrow>
                        (case np_add (np_scale 3 d1) d0 of
                           Inl e \<Rightarrow> Inl e
                         | Inr s \<Rightarrow> Inr (np_scale cte s)))))))))))))"

section \<open>Non-finite values\<close>

text \<open>
  The values that the external integral returns, and the sums and products the code
  forms of them, are float64 numbers, and a float64 number can be \<open>inf\<close>,
  \<open>-inf\<close> or \<open>nan\<close>. Here such a value is a real number or \<open>NonFin\<close>, which
  stands for any of the three. A sum or a product with a non-finite operand is
  non-finite (\<open>inf - inf\<close> and \<open>0 * inf\<close> are \<open>nan\<close>); on finite operands the
  arithmetic is exact.
\<close>

datatype float64 = Fin real | NonFin

instantiation float64 :: comm_monoid_add
begin

definition zero_float64 :: float64 where
  "zero_float64 = Fin 0"

definition plus_float64 :: "float64 \<Rightarrow> float64 \<Rightarrow> float64" where
  "plus_float64 x y =
     (case x of
        Fin a \<Rightarrow> (case y of Fin b \<Rightarrow> Fin (a + b) | NonFin \<Rightarrow> NonFin)
      | NonFin \<Rightarrow> NonFin)"

instance
proof
  fix a b c :: float64
  show "a + b + c = a + (b + c)"
    by (cases a; cases b; cases c) (simp_all add: plus_float64_def)
  show "a + b = b + a"
    by (cases a; cases b) (simp_all add: plus_float64_def)
  show "0 + a = a"
    by (cases a) (simp_all add: plus_float64_def zero_float64_def)
qed

end

instantiation float64 :: times
begin

definition times_float64 :: "float64 \<Rightarrow> float64 \<Rightarrow> float64" where
  "times_float64 x y =
     (case x of
        Fin a \<Rightarrow> (case y of Fin b \<Rightarrow> Fin (a * b) | NonFin \<Rightarrow> NonFin)
      | NonFin \<Rightarrow> NonFin)"

instance ..

end

type_synonym fvec3 = "float64 \<times> float64 \<times> float64"

definition fin3 :: "vec3 \<Rightarrow> fvec3" where
  "fin3 v = (case v of (x, y, z) \<Rightarrow> (Fin x, Fin y, Fin z))"

text \<open>
  The external functions on these values: the integral takes eight float64 numbers and
  returns one.
\<close>

record externals_fp =
  obaraSaikaMultipole_fp ::
    "float64 \<Rightarrow> float64 \<Rightarrow> float64 \<Rightarrow> float64 \<Rightarrow> float64 \<Rightarrow> float64 \<Rightarrow> float64 \<Rightarrow> float64
     \<Rightarrow> float64"
  calcOrbType_Components_fp :: "string \<Rightarrow> nat \<Rightarrow> int"

definition orb_components_fp :: "externals_fp \<Rightarrow> string \<Rightarrow> fvec3" where
  "orb_components_fp ext l =
     (Fin (real_of_int (calcOrbType_Components_fp ext l 0)),
      Fin (real_of_int (calcOrbType_Components_fp ext l 1)),
      Fin (real_of_int (calcOrbType_Components_fp ext l 2)))"

text \<open>
  \<open>sab_unfolded\<close> on these values. The coordinates, coefficients and exponents are
  finite. For \<open>e1 + e2 < 0\<close> \<open>math.sqrt\<close> raises ValueError. For \<open>e1 + e2 = 0\<close>
  (read as \<open>+0.0\<close>) nothing is raised: the quotients \<open>cte\<close>, \<open>p\<close> and \<open>rp\<close>
  are \<open>inf\<close> or \<open>nan\<close>, and so are \<open>s00\<close>, \<open>rpa\<close> and \<open>rpb\<close>, which are
  computed from them, so that the integral is called with these five arrays
  non-finite. Otherwise the arrays are the finite ones of \<open>primitive_product\<close>.
\<close>

definition sab_unfolded_fp ::
  "externals_fp \<Rightarrow> vec3 \<Rightarrow> vec3 \<Rightarrow> fvec3 \<Rightarrow> fvec3 \<Rightarrow> real \<Rightarrow> real \<Rightarrow> real \<Rightarrow> real \<Rightarrow>
   py_error + float64"
where
  "sab_unfolded_fp ext r1 r2 ls1 ls2 c1 c2 e1 e2 =
     (if e1 + e2 < 0 then Inl ValueError
      else
        (let cte = sqrt (pi / (e1 + e2));
             u = e1 * e2 / (e1 + e2);
             p = 1 / (2 * (e1 + e2));
             rp = vmap (\<lambda>x. x / (e1 + e2))
                    (vzip (\<lambda>x y. x + y) (vmap (\<lambda>x. e1 * x) r1) (vmap (\<lambda>x. e2 * x) r2));
             rab = vzip (\<lambda>x y. x - y) r1 r2;
             rpa = vzip (\<lambda>x y. x - y) rp r1;
             rpb = vzip (\<lambda>x y. x - y) rp r2;
             s00 = vmap (\<lambda>x. cte * exp (- u * x\<^sup>2)) rab;
             nf = (NonFin, NonFin, NonFin);
             arr = (if e1 + e2 = 0 then (nf, nf, nf, nf, nf)
                    else (fin3 (p, p, p), fin3 s00, fin3 rpa, fin3 rpb, fin3 rp))
         in case arr of (ps', s00', rpa', rpb', rp') \<Rightarrow>
              Inr (Fin c1 * Fin c2 *
                   np_prod (along_columns (obaraSaikaMultipole_fp ext)
                              ps' s00' rpa' rpb' rp' ls1 ls2 (Fin 0, Fin 0, Fin 0)))))"

definition apply_contraction_fp ::
  "externals_fp \<Rightarrow> vec3 \<Rightarrow> vec3 \<Rightarrow> string \<Rightarrow> string \<Rightarrow>
   real list \<times> real list \<Rightarrow> real list \<times> real list \<Rightarrow> py_error + float64"
where
  "apply_contraction_fp ext xyz_0 xyz_1 li lj ps_i ps_j =
     (case ps_i of (csi, esi) \<Rightarrow>
      case ps_j of (csj, esj) \<Rightarrow>
        if \<not> (length csj = length csi \<and> length esi = length csi \<and> length esj = length csi)
        then Inl ValueError
        else
          (let ls_i = orb_components_fp ext li;
               ls_j = orb_components_fp ext lj
           in if csi = [] then Inl ValueError
              else
                (case collect (map (\<lambda>k. sab_unfolded_fp ext xyz_0 xyz_1 ls_i ls_j
                                           (csi ! k) (csj ! k) (esi ! k) (esj ! k))
                                 [0..<length csi]) of
                   Inl e \<Rightarrow> Inl e
                 | Inr vs \<Rightarrow> Inr (sum_list vs))))"

definition calc_overlap_atom_fp ::
  "externals_fp \<Rightarrow> vec3 \<Rightarrow> CGF \<Rightarrow> vec3 \<Rightarrow> CGF list \<Rightarrow> py_error + float64 list" where
  "calc_overlap_atom_fp ext xyz_0 cgf_i xyz_1 cgfs_atom_j =
     collect (map (\<lambda>cgf_j. apply_contraction_fp ext xyz_0 xyz_1 (orbType cgf_i) (orbType cgf_j)
                              (primitives cgf_i) (primitives cgf_j))
                  cgfs_atom_j)"

fun overlap_row_loop_fp ::
  "externals_fp \<Rightarrow> basis \<Rightarrow> vec3 \<Rightarrow> CGF \<Rightarrow> AtomXYZ list \<Rightarrow> float64 list \<Rightarrow> nat \<Rightarrow>
   py_error + float64 list"
where
  "overlap_row_loop_fp ext dictCGFs xyz_0 cgf_i [] row acc = Inr row"
| "overlap_row_loop_fp ext dictCGFs xyz_0 cgf_i (a # mol1) row acc =
     (case dict_get dictCGFs (symbol a) of
        Inl e \<Rightarrow> Inl e
      | Inr cgfs_atom_j \<Rightarrow>
          (case calc_overlap_atom_fp ext xyz_0 cgf_i (xyz a) cgfs_atom_j of
             Inl e \<Rightarrow> Inl e
           | Inr vs \<Rightarrow>
               (case slice_assign row acc vs of
                  Inl e \<Rightarrow> Inl e
                | Inr row' \<Rightarrow>
                    overlap_row_loop_fp ext dictCGFs xyz_0 cgf_i mol1 row'
                      (acc + length cgfs_atom_j))))"

definition calc_overlap_row_fp ::
  "externals_fp \<Rightarrow> (nat \<Rightarrow> float64) \<Rightarrow> basis \<Rightarrow> AtomXYZ list \<Rightarrow> nat \<Rightarrow> vec3 \<Rightarrow> CGF \<Rightarrow>
   py_error + float64 list"
where
  "calc_overlap_row_fp ext u dictCGFs mol1 dimn xyz_0 cgf_i =
     overlap_row_loop_fp ext dictCGFs xyz_0 cgf_i mol1 (np_empty u dimn) 0"

definition overlap_rows_fp ::
  "externals_fp \<Rightarrow> (nat \<Rightarrow> nat \<Rightarrow> float64) \<Rightarrow> basis \<Rightarrow> nat \<Rightarrow> AtomXYZ list \<Rightarrow> AtomXYZ list \<Rightarrow>
   py_error + float64 list list"
where
  "overlap_rows_fp ext u dictCGFs dimn mol0 mol1 =
     collect (map (\<lambda>i. apply_nested (calc_overlap_row_fp ext (u i) dictCGFs mol1 dimn)
                          (lookup_cgf mol0 dictCGFs) (int i))
                  [0..<dimn])"

definition calcOverlapMtx_fp ::
  "externals_fp \<Rightarrow> (nat \<Rightarrow> nat \<Rightarrow> float64) \<Rightarrow> float64 ndarray option \<Rightarrow> basis \<Rightarrow> nat \<Rightarrow>
   AtomXYZ list \<Rightarrow> AtomXYZ list \<Rightarrow> py_error + float64 ndarray"
where
  "calcOverlapMtx_fp ext u trans_mtx dictCGFs dimn mol0 mol1 =
     (case overlap_rows_fp ext u dictCGFs dimn mol0 mol1 of
        Inl e \<Rightarrow> Inl e
      | Inr xss \<Rightarrow>
          (case np_stack xss of
             Inl e \<Rightarrow> Inl e
           | Inr suv \<Rightarrow>
               (case trans_mtx of
                  Some t \<Rightarrow>
                    (case np_dot suv (np_transpose t) of
                       Inl e \<Rightarrow> Inl e
                     | Inr m \<Rightarrow> np_dot t m)
                | None \<Rightarrow> Inr suv)))"

text \<open>
  The integral of \<open>externals\<close> on these values: on finite arguments it is the real one,
  and with a non-finite argument its value is non-finite.
\<close>

definition fin_integral ::
  "(real \<Rightarrow> real \<Rightarrow> real \<Rightarrow> real \<Rightarrow> real \<Rightarrow> real \<Rightarrow> real \<Rightarrow> real \<Rightarrow> real) \<Rightarrow>
   float64 \<Rightarrow> float64 \<Rightarrow> float64 \<Rightarrow> float64 \<Rightarrow> float64 \<Rightarrow> float64 \<Rightarrow> float64 \<Rightarrow> float64 \<Rightarrow> float64"
where
  "fin_integral f a b c d e g h k =
     (case (a, b, c, d, e, g, h, k) of
        (Fin a', Fin b', Fin c', Fin d', Fin e', Fin g', Fin h', Fin k') \<Rightarrow>
          Fin (f a' b' c' d' e' g' h' k')
      | _ \<Rightarrow> NonFin)"

definition lift_externals :: "externals \<Rightarrow> externals_fp" where
  "lift_externals ext =
     \<lparr>obaraSaikaMultipole_fp = fin_integral (obaraSaikaMultipole ext),
      calcOrbType_Components_fp = calcOrbType_Components ext\<rparr>"

definition fin_matrix :: "matrix \<Rightarrow> float64 ndarray" where
  "fin_matrix m = Matrix (ncols m) (map (map Fin) (rows m))"

section \<open>The specification's formulas\<close>

text \<open>
  The projection of the specification, \<open>C0\<^sup>t \<cdot> S \<cdot> C1\<close>, written out by entries: a
  matrix with as many rows as \<open>C0\<close> has columns and as many columns as \<open>C1\<close> has.
\<close>

definition mo_projection :: "matrix \<Rightarrow> matrix \<Rightarrow> matrix \<Rightarrow> matrix" where
  "mo_projection S C0 C1 =
     mk_matrix (ncols C0) (ncols C1)
       (\<lambda>i j. \<Sum>a<nrows S. \<Sum>b<ncols S. entry C0 a i * entry S a b * entry C1 b j)"

text \<open>The conversion to the spherical basis, \<open>T \<cdot> S \<cdot> T\<^sup>t\<close>, by entries.\<close>

definition spherical_transform :: "matrix \<Rightarrow> matrix \<Rightarrow> matrix" where
  "spherical_transform T S =
     mk_matrix (nrows T) (nrows T)
       (\<lambda>i j. \<Sum>a<nrows S. \<Sum>b<ncols S. entry T i a * entry S a b * entry T j b)"

text \<open>
  The three-point formula of the specification,
  \<open>[3 \<cdot> (Sji_t1 - Sij_t1) + (Sij_t0 - Sji_t0)] / (4 \<cdot> dt)\<close>, for \<open>n\<close> molecular
  orbitals.
\<close>

definition three_point_formula ::
  "nat \<Rightarrow> matrix \<Rightarrow> matrix \<Rightarrow> matrix \<Rightarrow> matrix \<Rightarrow> matrix \<Rightarrow> real \<Rightarrow> matrix" where
  "three_point_formula n S0 S1 Cprev Ccurr Cnext dt =
     (let Sji_t0 = mo_projection S0 Cprev Ccurr;
          Sij_t0 = mo_projection (np_transpose S0) Ccurr Cprev;
          Sji_t1 = mo_projection S1 Ccurr Cnext;
          Sij_t1 = mo_projection (np_transpose S1) Cnext Ccurr
      in mk_matrix n n
           (\<lambda>i j. (3 * (entry Sji_t1 i j - entry Sij_t1 i j)
                    + (entry Sij_t0 i j - entry Sji_t0 i j)) / (4 * dt)))"

text \<open>
  The contraction of the specification: the sum over every primitive of the first CGF
  paired with every primitive of the second, each pair contributing the product of its
  two coefficients and of the product over the axes.
\<close>

definition full_contraction ::
  "externals \<Rightarrow> vec3 \<Rightarrow> vec3 \<Rightarrow> string \<Rightarrow> string \<Rightarrow>
   real list \<times> real list \<Rightarrow> real list \<times> real list \<Rightarrow> real"
where
  "full_contraction ext xyz_0 xyz_1 li lj ps_i ps_j =
     (case ps_i of (csi, esi) \<Rightarrow>
      case ps_j of (csj, esj) \<Rightarrow>
        (\<Sum>a<length csi. \<Sum>b<length csj.
           csi ! a * csj ! b *
           primitive_product ext xyz_0 xyz_1 (orb_components ext li) (orb_components ext lj)
             (esi ! a) (esj ! b)))"

text \<open>
  The contraction over the primitives at equal positions only: the \<open>k\<close>-th of the
  first CGF with the \<open>k\<close>-th of the second.
\<close>

definition paired_contraction ::
  "externals \<Rightarrow> vec3 \<Rightarrow> vec3 \<Rightarrow> string \<Rightarrow> string \<Rightarrow>
   real list \<times> real list \<Rightarrow> real list \<times> real list \<Rightarrow> real"
where
  "paired_contraction ext xyz_0 xyz_1 li lj ps_i ps_j =
     (case ps_i of (csi, esi) \<Rightarrow>
      case ps_j of (csj, esj) \<Rightarrow>
        (\<Sum>k<length csi.
           csi ! k * csj ! k *
           primitive_product ext xyz_0 xyz_1 (orb_components ext li) (orb_components ext lj)
             (esi ! k) (esj ! k)))"

section \<open>Example inputs\<close>

text \<open>
  An instance of the two external functions: an integral that returns its second
  argument, which is the value for two s-type Gaussians, and labels that have no
  angular momentum along any axis.
\<close>

definition ext_s :: externals where
  "ext_s = \<lparr>obaraSaikaMultipole = (\<lambda>p s00 xpa xpb xp li lj e. s00),
            calcOrbType_Components = (\<lambda>l k. 0)\<rparr>"


text \<open>A hydrogen atom with one CGF next to a carbon atom with two.\<close>

definition cgf_h :: CGF where
  "cgf_h = \<lparr>primitives = ([1], [1]), orbType = ''S''\<rparr>"

definition cgf_c_s :: CGF where
  "cgf_c_s = \<lparr>primitives = ([1], [2]), orbType = ''S''\<rparr>"

definition cgf_c_px :: CGF where
  "cgf_c_px = \<lparr>primitives = ([1], [3]), orbType = ''Px''\<rparr>"

definition mixed_basis :: basis where
  "mixed_basis = [''H'' \<mapsto> [cgf_h], ''C'' \<mapsto> [cgf_c_s, cgf_c_px]]"

definition mixed_atoms :: "AtomXYZ list" where
  "mixed_atoms = [\<lparr>symbol = ''H'', xyz = (0, 0, 0)\<rparr>, \<lparr>symbol = ''C'', xyz = (1, 0, 0)\<rparr>]"

definition carbon_atoms :: "AtomXYZ list" where
  "carbon_atoms = [\<lparr>symbol = ''C'', xyz = (0, 0, 0)\<rparr>, \<lparr>symbol = ''C'', xyz = (1, 0, 0)\<rparr>]"

text \<open>A single cadmium atom with one s-type CGF of one primitive.\<close>

definition cd_atom :: AtomXYZ where
  "cd_atom = \<lparr>symbol = ''Cd'', xyz = (0, 0, 0)\<rparr>"

definition cd_cgf :: CGF where
  "cd_cgf = \<lparr>primitives = ([1], [1/2]), orbType = ''S''\<rparr>"

definition cd_basis :: basis where
  "cd_basis = [''Cd'' \<mapsto> [cd_cgf]]"

section \<open>The loop of the lookup\<close>

lemma floor_div_nonzero_iff:
  fixes x i :: int
  assumes "0 \<le> x" and "0 < i"
  shows "x div i \<noteq> 0 \<longleftrightarrow> i \<le> x"
  using assms by (metis div_pos_pos_trivial linorder_not_less pos_imp_zdiv_pos_iff less_irrefl)

lemma getitem_nat: "k < length xs \<Longrightarrow> getitem xs (int k) = Inr (xs ! k)"
  by (simp add: getitem_def)

lemma lookup_loop_block:
  assumes "\<forall>a\<in>set atoms. \<exists>cs. dictCGFs (symbol a) = Some cs \<and> cs \<noteq> []"
    and "0 < i" and "0 \<le> acc" and "acc \<le> i"
    and "basis_dim dictCGFs atoms = Inr n" and "i - acc < int n"
  shows "\<exists>a cs k. a \<in> set atoms \<and> dictCGFs (symbol a) = Some cs \<and> k < length cs \<and>
           lookup_loop dictCGFs i atoms acc cur = Inr (Some (xyz a), Some (int k)) \<and>
           block_lookup atoms dictCGFs (nat (i - acc)) = Some (xyz a, cs ! k)"
  using assms
proof (induction atoms arbitrary: acc cur n)
  case Nil
  then show ?case by simp
next
  case (Cons b atoms)
  from Cons.prems(1) obtain cs where cs: "dictCGFs (symbol b) = Some cs" "cs \<noteq> []"
    by auto
  from Cons.prems(5) cs obtain m where m: "basis_dim dictCGFs atoms = Inr m" "n = length cs + m"
    by (auto simp: dict_get_def split: sum.splits)
  let ?acc = "acc + int (length cs)"
  have pos: "0 \<le> ?acc - 1" using cs(2) Cons.prems(3) by (cases cs) auto
  show ?case
  proof (cases "i < ?acc")
    case True
    then have nz: "(?acc - 1) div i \<noteq> 0"
      using floor_div_nonzero_iff [OF pos Cons.prems(2)] by simp
    have k: "nat (i - acc) < length cs" using True Cons.prems(4) by linarith
    have "lookup_loop dictCGFs i (b # atoms) acc cur = Inr (Some (xyz b), Some (int (nat (i - acc))))"
      using nz cs Cons.prems(4) by (simp add: dict_get_def Let_def)
    moreover have "block_lookup (b # atoms) dictCGFs (nat (i - acc)) = Some (xyz b, cs ! nat (i - acc))"
      using k cs by simp
    ultimately show ?thesis using cs k by (intro exI [of _ b] exI [of _ cs] exI [of _ "nat (i - acc)"]) simp
  next
    case False
    then have z: "(?acc - 1) div i = 0"
      using floor_div_nonzero_iff [OF pos Cons.prems(2)] by simp
    have le: "?acc \<le> i" using False by simp
    have lt: "i - ?acc < int m" using Cons.prems(6) m(2) by simp
    have "\<forall>a\<in>set atoms. \<exists>cs. dictCGFs (symbol a) = Some cs \<and> cs \<noteq> []"
      using Cons.prems(1) by simp
    from Cons.IH [OF this Cons.prems(2) _ le m(1) lt, of "Some (xyz b)"] Cons.prems(3)
    obtain a cs' k where a: "a \<in> set atoms" "dictCGFs (symbol a) = Some cs'" "k < length cs'"
      "lookup_loop dictCGFs i atoms ?acc (Some (xyz b)) = Inr (Some (xyz a), Some (int k))"
      "block_lookup atoms dictCGFs (nat (i - ?acc)) = Some (xyz a, cs' ! k)"
      by auto
    have "lookup_loop dictCGFs i (b # atoms) acc cur = Inr (Some (xyz a), Some (int k))"
      using z cs a(4) by (simp add: dict_get_def Let_def)
    moreover have "nat (i - acc) - length cs = nat (i - ?acc)" by linarith
    moreover have "\<not> nat (i - acc) < length cs" using le by linarith
    ultimately have "block_lookup (b # atoms) dictCGFs (nat (i - acc)) = Some (xyz a, cs' ! k)"
      using cs a(5) by simp
    moreover note \<open>lookup_loop dictCGFs i (b # atoms) acc cur = Inr (Some (xyz a), Some (int k))\<close>
    ultimately show ?thesis using a(1-3) by (intro exI [of _ a] exI [of _ cs'] exI [of _ k]) simp
  qed
qed

lemma basis_dim_uniform:
  assumes "\<forall>a\<in>set atoms. dictCGFs (symbol a) = Some cs"
  shows "basis_dim dictCGFs atoms = Inr (length atoms * length cs)"
  using assms by (induction atoms) (simp_all add: dict_get_def)

section \<open>Matrix products by entries\<close>

lemma nrows_mk_matrix [simp]: "nrows (mk_matrix r c f) = r"
  by (simp add: nrows_def mk_matrix_def)

lemma ncols_mk_matrix [simp]: "ncols (mk_matrix r c f) = c"
  by (simp add: mk_matrix_def)

lemma entry_mk_matrix [simp]: "i < r \<Longrightarrow> j < c \<Longrightarrow> entry (mk_matrix r c f) i j = f i j"
  by (simp add: entry_def mk_matrix_def)

lemma is_array_mk_matrix [simp]: "is_array (mk_matrix r c f)"
  by (simp add: is_array_def mk_matrix_def list_all_iff)

lemma mk_matrix_cong:
  assumes "\<And>i j. i < r \<Longrightarrow> j < c \<Longrightarrow> f i j = g i j"
  shows "mk_matrix r c f = mk_matrix r c g"
  using assms by (simp add: mk_matrix_def)

lemma nrows_np_transpose [simp]: "nrows (np_transpose m) = ncols m"
  by (simp add: np_transpose_def)

lemma ncols_np_transpose [simp]: "ncols (np_transpose m) = nrows m"
  by (simp add: np_transpose_def)

lemma entry_np_transpose [simp]:
  "i < ncols m \<Longrightarrow> j < nrows m \<Longrightarrow> entry (np_transpose m) i j = entry m j i"
  by (simp add: np_transpose_def)

lemma calculate_overlap_entries:
  "calculate_overlap S C0 C1 =
     (if ncols S = nrows C1 \<and> nrows C0 = nrows S then Inr (mo_projection S C0 C1)
      else Inl ValueError)"
proof (cases "ncols S = nrows C1 \<and> nrows C0 = nrows S")
  case False
  then show ?thesis by (auto simp: calculate_overlap_def np_dot_def)
next
  case True
  have "mk_matrix (ncols C0) (ncols C1)
          (\<lambda>i j. \<Sum>a<nrows C0. entry (np_transpose C0) i a *
                     entry (mk_matrix (nrows S) (ncols C1)
                        (\<lambda>i j. \<Sum>b<ncols S. entry S i b * entry C1 b j)) a j)
        = mo_projection S C0 C1"
    unfolding mo_projection_def
  proof (rule mk_matrix_cong)
    fix i j assume i: "i < ncols C0" and j: "j < ncols C1"
    have "(\<Sum>a<nrows C0. entry (np_transpose C0) i a *
             entry (mk_matrix (nrows S) (ncols C1)
                (\<lambda>i j. \<Sum>b<ncols S. entry S i b * entry C1 b j)) a j)
          = (\<Sum>a<nrows S. entry C0 a i * (\<Sum>b<ncols S. entry S a b * entry C1 b j))"
      using True i j by (intro sum.cong) auto
    also have "\<dots> = (\<Sum>a<nrows S. \<Sum>b<ncols S. entry C0 a i * entry S a b * entry C1 b j)"
      by (simp add: sum_distrib_left mult.assoc)
    finally show "(\<Sum>a<nrows C0. entry (np_transpose C0) i a *
             entry (mk_matrix (nrows S) (ncols C1)
                (\<lambda>i j. \<Sum>b<ncols S. entry S i b * entry C1 b j)) a j)
          = (\<Sum>a<nrows S. \<Sum>b<ncols S. entry C0 a i * entry S a b * entry C1 b j)" .
  qed
  then show ?thesis using True by (simp add: calculate_overlap_def np_dot_def)
qed

lemma transform_entries:
  assumes "ncols S = ncols T" and "ncols T = nrows S"
  shows "(case np_dot S (np_transpose T) of Inl e \<Rightarrow> Inl e | Inr m \<Rightarrow> np_dot T m)
         = Inr (spherical_transform T S)"
proof -
  have "mk_matrix (nrows T) (nrows T)
          (\<lambda>i j. \<Sum>a<ncols T. entry T i a *
                     entry (mk_matrix (nrows S) (nrows T)
                        (\<lambda>i j. \<Sum>b<ncols S. entry S i b * entry (np_transpose T) b j)) a j)
        = spherical_transform T S"
    unfolding spherical_transform_def
  proof (rule mk_matrix_cong)
    fix i j assume i: "i < nrows T" and j: "j < nrows T"
    have "(\<Sum>a<ncols T. entry T i a *
             entry (mk_matrix (nrows S) (nrows T)
                (\<lambda>i j. \<Sum>b<ncols S. entry S i b * entry (np_transpose T) b j)) a j)
          = (\<Sum>a<nrows S. entry T i a * (\<Sum>b<ncols S. entry S a b * entry T j b))"
      using assms i j by (intro sum.cong) auto
    also have "\<dots> = (\<Sum>a<nrows S. \<Sum>b<ncols S. entry T i a * entry S a b * entry T j b)"
      by (simp add: sum_distrib_left mult.assoc)
    finally show "(\<Sum>a<ncols T. entry T i a *
             entry (mk_matrix (nrows S) (nrows T)
                (\<lambda>i j. \<Sum>b<ncols S. entry S i b * entry (np_transpose T) b j)) a j)
          = (\<Sum>a<nrows S. \<Sum>b<ncols S. entry T i a * entry S a b * entry T j b)" .
  qed
  then show ?thesis using assms by (simp add: np_dot_def)
qed

lemma mo_projection_transpose:
  assumes "i < ncols C1" and "j < ncols C0"
  shows "entry (mo_projection (np_transpose S) C1 C0) i j = entry (mo_projection S C0 C1) j i"
proof -
  have "entry (mo_projection (np_transpose S) C1 C0) i j
        = (\<Sum>a<ncols S. \<Sum>b<nrows S. entry C1 a i * entry S b a * entry C0 b j)"
    using assms by (simp add: mo_projection_def)
  also have "\<dots> = (\<Sum>b<nrows S. \<Sum>a<ncols S. entry C1 a i * entry S b a * entry C0 b j)"
    by (rule sum.swap)
  also have "\<dots> = entry (mo_projection S C0 C1) j i"
    using assms by (simp add: mo_projection_def mult_ac)
  finally show ?thesis .
qed

section \<open>The coupling as the three-point formula\<close>

lemma np_binop_same_shape:
  assumes "nrows a = nrows b" and "ncols a = ncols b"
  shows "np_binop f a b = Inr (mk_matrix (nrows a) (ncols a) (\<lambda>i j. f (entry a i j) (entry b i j)))"
proof -
  have "mk_matrix (nrows b) (ncols b)
          (\<lambda>i j. f (entry a (if nrows a = 1 then 0 else i) (if ncols a = 1 then 0 else j))
                   (entry b (if nrows b = 1 then 0 else i) (if ncols b = 1 then 0 else j)))
        = mk_matrix (nrows b) (ncols b) (\<lambda>i j. f (entry a i j) (entry b i j))"
    using assms by (intro mk_matrix_cong) auto
  then show ?thesis using assms by (simp add: np_binop_def broadcast_dim_def)
qed

lemma coupling_steps:
  assumes dim: "basis_dim dictCGFs (map coordinates_to_numpy g0) = Inr dimn"
    and S0: "calcOverlapMtx ext (u 0) trans_mtx dictCGFs dimn
               (map coordinates_to_numpy g0) (map coordinates_to_numpy g1) = Inr S0"
    and S1: "calcOverlapMtx ext (u 1) trans_mtx dictCGFs dimn
               (map coordinates_to_numpy g1) (map coordinates_to_numpy g2) = Inr S1"
    and shapes: "nrows css0 = nrows S0" "ncols S0 = nrows css1"
                "nrows css1 = nrows S1" "ncols S1 = nrows css2"
    and n: "ncols css0 = n" "ncols css1 = n" "ncols css2 = n"
    and dt: "dt \<noteq> 0"
  shows "calculateCoupling3Points ext u (g0, g1, g2) (css0, css1, css2) dictCGFs dt trans_mtx
         = Inr (three_point_formula n S0 S1 css0 css1 css2 dt)"
proof -
  let ?sji0 = "mo_projection S0 css0 css1" and ?sji1 = "mo_projection S1 css1 css2"
  let ?sij0 = "mo_projection (np_transpose S0) css1 css0"
  let ?sij1 = "mo_projection (np_transpose S1) css2 css1"
  have sh: "nrows ?sji0 = n" "ncols ?sji0 = n" "nrows ?sji1 = n" "ncols ?sji1 = n"
    "nrows ?sij0 = n" "ncols ?sij0 = n" "nrows ?sij1 = n" "ncols ?sij1 = n"
    using n by (simp_all add: mo_projection_def)
  have d1: "np_sub ?sji1 ?sij1 = Inr (mk_matrix n n (\<lambda>i j. entry ?sji1 i j - entry ?sij1 i j))"
    unfolding np_sub_def using sh by (simp add: np_binop_same_shape)
  have d0: "np_sub ?sij0 ?sji0 = Inr (mk_matrix n n (\<lambda>i j. entry ?sij0 i j - entry ?sji0 i j))"
    unfolding np_sub_def using sh by (simp add: np_binop_same_shape)
  let ?d1 = "mk_matrix n n (\<lambda>i j. entry ?sji1 i j - entry ?sij1 i j)"
  let ?d0 = "mk_matrix n n (\<lambda>i j. entry ?sij0 i j - entry ?sji0 i j)"
  have s: "np_add (np_scale 3 ?d1) ?d0
           = Inr (mk_matrix n n (\<lambda>i j. 3 * (entry ?sji1 i j - entry ?sij1 i j)
                                        + (entry ?sij0 i j - entry ?sji0 i j)))"
    unfolding np_add_def
    by (simp add: np_binop_same_shape np_scale_def) (rule mk_matrix_cong, simp)
  let ?s = "mk_matrix n n (\<lambda>i j. 3 * (entry ?sji1 i j - entry ?sij1 i j)
                                        + (entry ?sij0 i j - entry ?sji0 i j))"
  have fin: "np_scale (1 / (4 * dt)) ?s = three_point_formula n S0 S1 css0 css1 css2 dt"
    unfolding three_point_formula_def Let_def np_scale_def
    by (simp, rule mk_matrix_cong, simp)
  show ?thesis
    unfolding calculateCoupling3Points_def
    using dim S0 S1 shapes dt d1 d0 s fin
    by (simp add: calculate_overlap_entries Let_def)
qed

lemma three_point_formula_antisym:
  assumes "ncols css0 = n" "ncols css1 = n" "ncols css2 = n" and "i < n" and "j < n"
  shows "entry (three_point_formula n S0 S1 css0 css1 css2 dt) i j
         = - entry (three_point_formula n S0 S1 css0 css1 css2 dt) j i"
proof -
  have a: "entry (mo_projection (np_transpose S0) css1 css0) i j = entry (mo_projection S0 css0 css1) j i"
    "entry (mo_projection (np_transpose S0) css1 css0) j i = entry (mo_projection S0 css0 css1) i j"
    "entry (mo_projection (np_transpose S1) css2 css1) i j = entry (mo_projection S1 css1 css2) j i"
    "entry (mo_projection (np_transpose S1) css2 css1) j i = entry (mo_projection S1 css1 css2) i j"
    using assms by (simp_all add: mo_projection_transpose)
  have neg: "(3 * (c - e) + (b - a')) / d = - ((3 * (e - c) + (a' - b)) / d)" for a' b c e d :: real
  proof -
    have "3 * (c - e) + (b - a') = - (3 * (e - c) + (a' - b))" by simp
    then show ?thesis by (simp only: minus_divide_left)
  qed
  have L: "entry (three_point_formula n S0 S1 css0 css1 css2 dt) i j
        = (3 * (entry (mo_projection S1 css1 css2) i j - entry (mo_projection S1 css1 css2) j i)
           + (entry (mo_projection S0 css0 css1) j i - entry (mo_projection S0 css0 css1) i j)) / (4 * dt)"
    using assms(4,5) unfolding three_point_formula_def Let_def by (simp add: a)
  have R: "entry (three_point_formula n S0 S1 css0 css1 css2 dt) j i
        = (3 * (entry (mo_projection S1 css1 css2) j i - entry (mo_projection S1 css1 css2) i j)
           + (entry (mo_projection S0 css0 css1) i j - entry (mo_projection S0 css0 css1) j i)) / (4 * dt)"
    using assms(4,5) unfolding three_point_formula_def Let_def by (simp add: a)
  show ?thesis unfolding L R by (rule neg)
qed

lemma coupling_returned:
  assumes "calculateCoupling3Points ext u (g0, g1, g2) (css0, css1, css2) dictCGFs dt trans_mtx = Inr M"
    and n: "ncols css0 = n" "ncols css1 = n" "ncols css2 = n"
  shows "\<exists>S0 S1. M = three_point_formula n S0 S1 css0 css1 css2 dt"
proof -
  from assms(1) obtain dimn S0 S1 where
    dim: "basis_dim dictCGFs (map coordinates_to_numpy g0) = Inr dimn"
    and S0: "calcOverlapMtx ext (u 0) trans_mtx dictCGFs dimn
               (map coordinates_to_numpy g0) (map coordinates_to_numpy g1) = Inr S0"
    and S1: "calcOverlapMtx ext (u 1) trans_mtx dictCGFs dimn
               (map coordinates_to_numpy g1) (map coordinates_to_numpy g2) = Inr S1"
    and shapes: "nrows css0 = nrows S0" "ncols S0 = nrows css1"
                "nrows css1 = nrows S1" "ncols S1 = nrows css2"
    and dt: "dt \<noteq> 0"
    unfolding calculateCoupling3Points_def
    by (auto simp: calculate_overlap_entries Let_def split: sum.splits if_splits)
  from coupling_steps [OF dim S0 S1 shapes n dt] assms(1) show ?thesis by auto
qed

section \<open>Shape of the overlap matrix\<close>

lemma collect_map_Inr [simp]: "collect (map Inr ys) = Inr ys"
  by (induction ys) simp_all

lemma collect_Inr_D: "collect xs = Inr ys \<Longrightarrow> xs = map Inr ys"
  by (induction xs arbitrary: ys) (auto split: sum.splits)

lemma collect_Inr_iff: "collect xs = Inr ys \<longleftrightarrow> xs = map Inr ys"
  using collect_Inr_D by auto

lemma slice_assign_length:
  "slice_assign row acc vs = Inr row' \<Longrightarrow> length row' = length row"
  by (auto simp: slice_assign_def Let_def split: if_splits)

lemma overlap_row_loop_length:
  "overlap_row_loop ext dictCGFs xyz_0 cgf_i mol1 row acc = Inr r \<Longrightarrow> length r = length row"
proof (induction mol1 arbitrary: row acc)
  case Nil
  then show ?case by simp
next
  case (Cons a mol1)
  then show ?case
    by (auto split: sum.splits dest!: slice_assign_length)
qed

lemma calc_overlap_row_length:
  "calc_overlap_row ext u dictCGFs mol1 dimn xyz_0 cgf_i = Inr r \<Longrightarrow> length r = dimn"
  by (auto simp: calc_overlap_row_def np_empty_def dest: overlap_row_loop_length)

lemma overlap_rows_shape:
  assumes "overlap_rows ext u dictCGFs dimn mol0 mol1 = Inr xss"
  shows "length xss = dimn \<and> list_all (\<lambda>r. length r = dimn) xss"
proof -
  from assms have eq: "map (\<lambda>i. apply_nested (calc_overlap_row ext (u i) dictCGFs mol1 dimn)
                          (lookup_cgf mol0 dictCGFs) (int i)) [0..<dimn] = map Inr xss"
    by (simp add: overlap_rows_def collect_Inr_iff)
  from arg_cong [OF eq, of length] have len: "length xss = dimn"
    by simp
  have "length (xss ! i) = dimn" if "i < dimn" for i
  proof -
    from arg_cong [OF eq, of "\<lambda>l. l ! i"] that len
    have "apply_nested (calc_overlap_row ext (u i) dictCGFs mol1 dimn)
                          (lookup_cgf mol0 dictCGFs) (int i) = Inr (xss ! i)"
      by simp
    then show ?thesis
      by (auto simp: apply_nested_def split: sum.splits dest: calc_overlap_row_length)
  qed
  with len show ?thesis by (auto simp: list_all_length)
qed

lemma np_stack_shape:
  assumes "np_stack xss = Inr S" and "length xss = dimn" and "list_all (\<lambda>r. length r = dimn) xss"
  shows "S = Matrix dimn xss \<and> 0 < dimn"
  using assms by (cases xss) (auto simp: np_stack_def split: if_splits)

lemma calcOverlapMtx_shape:
  assumes "calcOverlapMtx ext u trans_mtx dictCGFs dimn mol0 mol1 = Inr S"
  shows "nrows S = (case trans_mtx of None \<Rightarrow> dimn | Some t \<Rightarrow> nrows t) \<and> ncols S = nrows S \<and> is_array S"
proof -
  from assms obtain xss suv where rows: "overlap_rows ext u dictCGFs dimn mol0 mol1 = Inr xss"
    and st: "np_stack xss = Inr suv"
    and res: "(case trans_mtx of
                  Some t \<Rightarrow> (case np_dot suv (np_transpose t) of Inl e \<Rightarrow> Inl e | Inr m \<Rightarrow> np_dot t m)
                | None \<Rightarrow> Inr suv) = Inr S"
    by (auto simp: calcOverlapMtx_def split: sum.splits)
  from overlap_rows_shape [OF rows] np_stack_shape [OF st]
  have suv: "suv = Matrix dimn xss" "length xss = dimn" "list_all (\<lambda>r. length r = dimn) xss"
    by auto
  show ?thesis
  proof (cases trans_mtx)
    case None
    with res suv show ?thesis by (auto simp: nrows_def is_array_def)
  next
    case (Some t)
    with res obtain m where m: "np_dot suv (np_transpose t) = Inr m" and S: "np_dot t m = Inr S"
      by (auto split: sum.splits)
    from m have "ncols m = nrows t" by (auto simp: np_dot_def split: if_splits)
    with S Some show ?thesis by (auto simp: np_dot_def split: if_splits)
  qed
qed

lemma calcOverlapMtx_transform:
  "calcOverlapMtx ext u (Some t) dictCGFs dimn mol0 mol1 =
     (case calcOverlapMtx ext u None dictCGFs dimn mol0 mol1 of
        Inl e \<Rightarrow> Inl e
      | Inr S \<Rightarrow> if ncols t = dimn then Inr (spherical_transform t S) else Inl ValueError)"
proof (cases "calcOverlapMtx ext u None dictCGFs dimn mol0 mol1")
  case (Inl e)
  then show ?thesis by (auto simp: calcOverlapMtx_def split: sum.splits)
next
  case (Inr S)
  from calcOverlapMtx_shape [OF Inr] have sh: "nrows S = dimn" "ncols S = dimn" by auto
  from Inr obtain xss where rows: "overlap_rows ext u dictCGFs dimn mol0 mol1 = Inr xss"
    and st: "np_stack xss = Inr S"
    by (auto simp: calcOverlapMtx_def split: sum.splits)
  show ?thesis
  proof (cases "ncols t = dimn")
    case True
    with sh transform_entries [of S t] rows st Inr show ?thesis
      by (simp add: calcOverlapMtx_def)
  next
    case False
    with sh rows st Inr show ?thesis
      by (auto simp: calcOverlapMtx_def np_dot_def)
  qed
qed

section \<open>Contraction and the single-atom system\<close>

lemma sum_list_upt: "sum_list (map f [0..<n]) = (\<Sum>k<n. f k)"
  by (simp add: interv_sum_list_conv_sum_set_nat atLeast0LessThan)

lemma collect_map_Inr_fun: "collect (map (\<lambda>k. Inr (f k)) xs) = Inr (map f xs)"
  by (induction xs) simp_all

lemma single_atom_overlap:
  assumes "dictCGFs s = Some [cgf]" and "primitives cgf = ([c], [e])" and "0 < e"
  shows "calcOverlapMtx ext u None dictCGFs 1 [\<lparr>symbol = s, xyz = p\<rparr>] [\<lparr>symbol = s, xyz = q\<rparr>]
         = Inr (Matrix 1 [[c * c * primitive_product ext p q (orb_components ext (orbType cgf))
                               (orb_components ext (orbType cgf)) e e]])"
  using assms
  by (simp add: calcOverlapMtx_def overlap_rows_def apply_nested_def lookup_cgf_def getitem_def
      dict_get_def calc_overlap_row_def np_empty_def calc_overlap_atom_def apply_contraction_def
      sab_unfolded_def slice_assign_def np_stack_def Let_def)

lemma coordinates_to_numpy_id [simp]: "coordinates_to_numpy a = a"
  by (simp add: coordinates_to_numpy_def)

lemma np_transpose_1x1 [simp]: "np_transpose (Matrix (Suc 0) [[v]]) = Matrix (Suc 0) [[v]]"
  by (simp add: np_transpose_def mk_matrix_def nrows_def entry_def)

lemma single_atom_coupling:
  assumes d: "dictCGFs s = Some [cgf]" and prim: "primitives cgf = ([c], [e])" and e: "0 < e"
    and C: "nrows C = 1" "ncols C = n" and dt: "dt \<noteq> 0"
  shows "calculateCoupling3Points ext u
           ([\<lparr>symbol = s, xyz = p\<rparr>], [\<lparr>symbol = s, xyz = p\<rparr>], [\<lparr>symbol = s, xyz = p\<rparr>])
           (C, C, C) dictCGFs dt None
         = Inr (mk_matrix n n (\<lambda>i j. 0))"
proof -
  let ?a = "\<lparr>symbol = s, xyz = p\<rparr>"
  let ?S = "Matrix 1 [[c * c * primitive_product ext p p (orb_components ext (orbType cgf))
                               (orb_components ext (orbType cgf)) e e]]"
  have dim: "basis_dim dictCGFs (map coordinates_to_numpy [?a]) = Inr 1"
    using d by (simp add: dict_get_def)
  have S: "calcOverlapMtx ext (u k) None dictCGFs 1
             (map coordinates_to_numpy [?a]) (map coordinates_to_numpy [?a]) = Inr ?S" for k
    using single_atom_overlap [where dictCGFs = dictCGFs and s = s, OF d prim e] by simp
  have sh: "nrows C = nrows ?S" "ncols ?S = nrows C"
    using C by (simp_all add: nrows_def)
  have "calculateCoupling3Points ext u ([?a], [?a], [?a]) (C, C, C) dictCGFs dt None
        = Inr (three_point_formula n ?S ?S C C C dt)"
    by (rule coupling_steps [OF dim S S sh(1) sh(2) sh(1) sh(2) C(2) C(2) C(2) dt])
  moreover have "three_point_formula n ?S ?S C C C dt = mk_matrix n n (\<lambda>i j. 0)"
    unfolding three_point_formula_def Let_def by simp
  ultimately show ?thesis by simp
qed

lemma primitive_product_ext_s:
  "primitive_product ext_s (0, 0, 0) (0, 0, 0) ls1 ls2 (1/2) (1/2) = pi * sqrt pi"
  by (cases ls1; cases ls2) (simp add: primitive_product_def ext_s_def vmap_def vzip_def np_prod_def Let_def)

lemma apply_contraction_paired:
  assumes "list_all (\<lambda>e. 0 < e) esi" and "list_all (\<lambda>e. 0 < e) esj"
  shows "apply_contraction ext xyz_0 xyz_1 li lj (csi, esi) (csj, esj) =
           (if length csj = length csi \<and> length esi = length csi \<and> length esj = length csi
               \<and> csi \<noteq> []
            then Inr (paired_contraction ext xyz_0 xyz_1 li lj (csi, esi) (csj, esj))
            else Inl ValueError)"
proof (cases "length csj = length csi \<and> length esi = length csi \<and> length esj = length csi
               \<and> csi \<noteq> []")
  case False
  then show ?thesis by (auto simp: apply_contraction_def)
next
  case True
  let ?f = "\<lambda>k. csi ! k * csj ! k *
           primitive_product ext xyz_0 xyz_1 (orb_components ext li) (orb_components ext lj)
             (esi ! k) (esj ! k)"
  have "map (\<lambda>k. sab_unfolded ext xyz_0 xyz_1 (orb_components ext li) (orb_components ext lj)
                    (csi ! k) (csj ! k) (esi ! k) (esj ! k)) [0..<length csi]
        = map (\<lambda>k. Inr (?f k)) [0..<length csi]"
  proof (rule map_cong [OF refl])
    fix k assume "k \<in> set [0..<length csi]"
    then have k: "k < length csi" by simp
    with True assms have "0 < esi ! k" "0 < esj ! k" by (auto simp: list_all_length)
    then show "sab_unfolded ext xyz_0 xyz_1 (orb_components ext li) (orb_components ext lj)
                    (csi ! k) (csj ! k) (esi ! k) (esj ! k) = Inr (?f k)"
      by (simp add: sab_unfolded_def)
  qed
  then have "collect (map (\<lambda>k. sab_unfolded ext xyz_0 xyz_1 (orb_components ext li) (orb_components ext lj)
                    (csi ! k) (csj ! k) (esi ! k) (esj ! k)) [0..<length csi])
        = Inr (map ?f [0..<length csi])"
    by (simp only: collect_map_Inr_fun)
  then have "apply_contraction ext xyz_0 xyz_1 li lj (csi, esi) (csj, esj)
             = Inr (sum_list (map ?f [0..<length csi]))"
    using True by (simp add: apply_contraction_def Let_def)
  then show ?thesis using True by (simp add: sum_list_upt paired_contraction_def)
qed

lemma mk_matrix_2_2: "mk_matrix 2 2 f = Matrix 2 [[f 0 0, f 0 1], [f 1 0, f 1 1]]"
  by (simp add: mk_matrix_def numeral_2_eq_2)

lemma cd_overlap:
  "calcOverlapMtx ext_s u None cd_basis 1 [cd_atom] [cd_atom] = Inr (Matrix 1 [[pi * sqrt pi]])"
  using single_atom_overlap [of cd_basis "''Cd''" cd_cgf 1 "1/2" ext_s u "(0,0,0)" "(0,0,0)"]
  by (simp add: cd_basis_def cd_cgf_def cd_atom_def primitive_product_ext_s)

lemma cd_formula:
  "three_point_formula 2 (Matrix 1 [[pi * sqrt pi]]) (Matrix 1 [[pi * sqrt pi]])
     (Matrix 2 [[1, 0]]) (Matrix 2 [[0, 1]]) (Matrix 2 [[1, 1]]) dt
   = Matrix 2 [[0, - (pi * sqrt pi / dt)], [pi * sqrt pi / dt, 0]]"
  by (simp add: three_point_formula_def mk_matrix_2_2 mo_projection_def nrows_def entry_def Let_def)

lemma cd_coupling:
  assumes "dt \<noteq> 0"
  shows "calculateCoupling3Points ext_s u ([cd_atom], [cd_atom], [cd_atom])
     (Matrix 2 [[1, 0]], Matrix 2 [[0, 1]], Matrix 2 [[1, 1]]) cd_basis dt None
   = Inr (Matrix 2 [[0, - (pi * sqrt pi / dt)], [pi * sqrt pi / dt, 0]])"
proof -
  let ?S = "Matrix 1 [[pi * sqrt pi]]"
  have dim: "basis_dim cd_basis (map coordinates_to_numpy [cd_atom]) = Inr 1"
    by (simp add: cd_basis_def cd_atom_def dict_get_def)
  have S: "calcOverlapMtx ext_s (u k) None cd_basis 1
             (map coordinates_to_numpy [cd_atom]) (map coordinates_to_numpy [cd_atom])
           = Inr ?S" for k
    using cd_overlap [of "u k"] by simp
  have sh: "nrows (Matrix 2 [[1, 0]]) = nrows ?S" "ncols ?S = nrows (Matrix 2 [[0, 1]])"
    "nrows (Matrix 2 [[0, 1]]) = nrows ?S" "ncols ?S = nrows (Matrix 2 [[1, 1]])"
    by (simp_all add: nrows_def)
  have n: "ncols (Matrix 2 [[1, 0]]) = 2" "ncols (Matrix 2 [[0, 1]]) = 2" "ncols (Matrix 2 [[1, 1]]) = 2"
    by simp_all
  have "calculateCoupling3Points ext_s u ([cd_atom], [cd_atom], [cd_atom])
     (Matrix 2 [[1, 0]], Matrix 2 [[0, 1]], Matrix 2 [[1, 1]]) cd_basis dt None
     = Inr (three_point_formula 2 ?S ?S (Matrix 2 [[1, 0]]) (Matrix 2 [[0, 1]]) (Matrix 2 [[1, 1]]) dt)"
    by (rule coupling_steps [where u = u, OF dim S S sh n assms])
  then show ?thesis by (simp only: cd_formula)
qed

section \<open>The rows are the concatenated blocks of the atoms\<close>

lemma slice_assign_inside:
  assumes "acc + length vs \<le> length row"
  shows "slice_assign row acc vs = Inr (take acc row @ vs @ drop (acc + length vs) row)"
  using assms by (simp add: slice_assign_def Let_def min_def)

lemma calc_overlap_atom_length:
  "calc_overlap_atom ext xyz_0 cgf_i xyz_1 cgfs = Inr vs \<Longrightarrow> length vs = length cgfs"
  unfolding calc_overlap_atom_def
  by (drule collect_Inr_D, drule arg_cong [where f = length], simp)

lemma overlap_row_loop_blocks:
  assumes "basis_dim dictCGFs mol1 = Inr n" and "acc + n \<le> length row"
  shows "overlap_row_loop ext dictCGFs xyz_0 cgf_i mol1 row acc =
           (case row_blocks ext dictCGFs xyz_0 cgf_i mol1 of
              Inl e \<Rightarrow> Inl e
            | Inr vss \<Rightarrow> Inr (take acc row @ concat vss @ drop (acc + n) row))"
  using assms
proof (induction mol1 arbitrary: row acc n)
  case Nil
  then show ?case by (simp add: row_blocks_def)
next
  case (Cons a mol1)
  from Cons.prems(1) obtain cgfs m where a: "dictCGFs (symbol a) = Some cgfs"
    and m: "basis_dim dictCGFs mol1 = Inr m" and n: "n = length cgfs + m"
    by (auto simp: dict_get_def split: option.splits sum.splits)
  show ?case
  proof (cases "calc_overlap_atom ext xyz_0 cgf_i (xyz a) cgfs")
    case (Inl e)
    with a show ?thesis by (simp add: row_blocks_def dict_get_def)
  next
    case (Inr vs)
    then have len: "length vs = length cgfs" by (rule calc_overlap_atom_length)
    let ?row = "take acc row @ vs @ drop (acc + length vs) row"
    have sa: "slice_assign row acc vs = Inr ?row"
      using Cons.prems(2) n len by (intro slice_assign_inside) simp
    have le: "acc + length cgfs + m \<le> length ?row"
      using Cons.prems(2) n len by simp
    have t: "take (acc + length cgfs) ?row = take acc row @ vs"
      using Cons.prems(2) n len by simp
    have d: "drop (acc + length cgfs + m) ?row = drop (acc + n) row"
      using Cons.prems(2) n len by (simp add: add.commute add.left_commute)
    show ?thesis
      using a Inr sa Cons.IH [OF m le] t d
      by (simp add: row_blocks_def dict_get_def split: sum.splits)
  qed
qed

lemma calc_overlap_row_blocks:
  assumes "basis_dim dictCGFs mol1 = Inr dimn"
  shows "calc_overlap_row ext u dictCGFs mol1 dimn xyz_0 cgf_i =
           (case row_blocks ext dictCGFs xyz_0 cgf_i mol1 of
              Inl e \<Rightarrow> Inl e
            | Inr vss \<Rightarrow> Inr (concat vss))"
proof -
  have len: "length (np_empty u dimn) = dimn" by (simp add: np_empty_def)
  show ?thesis
    unfolding calc_overlap_row_def
    by (subst overlap_row_loop_blocks [OF assms]) (simp_all add: len split: sum.splits)
qed

section \<open>The builder on values that can be non-finite\<close>






section \<open>What is raised does not depend on the integral\<close>

lemma raised_simps [simp]: "raised (Inl e) = Some e" "raised (Inr v) = None"
  by (simp_all add: raised_def)

lemma raised_None_iff: "raised r = None \<longleftrightarrow> (\<exists>v. r = Inr v)"
  by (cases r) simp_all












section \<open>Identical frames\<close>

lemma np_transpose_mk_matrix: "np_transpose (mk_matrix r c f) = mk_matrix c r (\<lambda>i j. f j i)"
  unfolding np_transpose_def by (simp, rule mk_matrix_cong, simp)

lemma spherical_transform_1x1_symmetric:
  "np_transpose (spherical_transform t (Matrix 1 [[v]])) = spherical_transform t (Matrix 1 [[v]])"
  unfolding spherical_transform_def np_transpose_mk_matrix
  by (rule mk_matrix_cong) (simp add: nrows_def mult_ac)

lemma same_frames_formula_zero:
  assumes "np_transpose S = S"
  shows "three_point_formula n S S C C C dt = mk_matrix n n (\<lambda>i j. 0)"
  unfolding three_point_formula_def Let_def by (simp add: assms)

lemma single_atom_coupling_transform:
  assumes d: "dictCGFs s = Some [cgf]" and prim: "primitives cgf = ([c], [e])" and e: "0 < e"
    and t: "ncols t = 1" and C: "nrows C = nrows t" "ncols C = n" and dt: "dt \<noteq> 0"
  shows "calculateCoupling3Points ext u
           ([\<lparr>symbol = s, xyz = p\<rparr>], [\<lparr>symbol = s, xyz = p\<rparr>], [\<lparr>symbol = s, xyz = p\<rparr>])
           (C, C, C) dictCGFs dt (Some t)
         = Inr (mk_matrix n n (\<lambda>i j. 0))"
proof -
  let ?a = "\<lparr>symbol = s, xyz = p\<rparr>"
  let ?S = "Matrix 1 [[c * c * primitive_product ext p p (orb_components ext (orbType cgf))
                               (orb_components ext (orbType cgf)) e e]]"
  let ?T = "spherical_transform t ?S"
  have dim: "basis_dim dictCGFs (map coordinates_to_numpy [?a]) = Inr 1"
    using d by (simp add: dict_get_def)
  have raw: "calcOverlapMtx ext (u k) None dictCGFs 1 [?a] [?a] = Inr ?S" for k
    by (rule single_atom_overlap [where dictCGFs = dictCGFs and s = s, OF d prim e])
  have S: "calcOverlapMtx ext (u k) (Some t) dictCGFs 1
             (map coordinates_to_numpy [?a]) (map coordinates_to_numpy [?a]) = Inr ?T" for k
    using raw [of k] t by (simp add: calcOverlapMtx_transform)
  have sh: "nrows C = nrows ?T" "ncols ?T = nrows C"
    using C by (simp_all add: spherical_transform_def)
  have "calculateCoupling3Points ext u ([?a], [?a], [?a]) (C, C, C) dictCGFs dt (Some t)
        = Inr (three_point_formula n ?T ?T C C C dt)"
    by (rule coupling_steps [OF dim S S sh(1) sh(2) sh(1) sh(2) C(2) C(2) C(2) dt])
  then show ?thesis
    by (simp only: same_frames_formula_zero [OF spherical_transform_1x1_symmetric])
qed

section \<open>The two builders agree on finite values\<close>

lemma float64_Fin [simp]:
  "Fin a + Fin b = Fin (a + b)" "Fin a * Fin b = Fin (a * b)"
  by (simp_all add: plus_float64_def times_float64_def)

lemma float64_NonFin [simp]:
  "NonFin + x = NonFin" "x + NonFin = NonFin" "NonFin * x = NonFin" "x * NonFin = NonFin"
  by (simp_all add: plus_float64_def times_float64_def split: float64.splits)

lemma sum_list_Fin: "sum_list (map Fin xs) = Fin (sum_list xs)"
  by (induction xs) (simp_all add: zero_float64_def)

lemma sum_Fin: "(\<Sum>k<(n::nat). Fin (f k)) = Fin (\<Sum>k<n. f k)"
  by (induction n) (simp_all add: zero_float64_def)

lemma collect_map_sum:
  "collect (map (\<lambda>x. map_sum id g (f x)) xs) = map_sum id (map g) (collect (map f xs))"
  by (induction xs) (auto split: sum.splits)

lemma orb_components_fp_lift:
  "orb_components_fp (lift_externals ext) l = fin3 (orb_components ext l)"
  by (simp add: orb_components_fp_def orb_components_def lift_externals_def fin3_def)

lemma sab_unfolded_fp_lift:
  assumes "e1 + e2 \<noteq> 0"
  shows "sab_unfolded_fp (lift_externals ext) r1 r2 (fin3 ls1) (fin3 ls2) c1 c2 e1 e2
         = map_sum id Fin (sab_unfolded ext r1 r2 ls1 ls2 c1 c2 e1 e2)"
proof -
  obtain x1 y1 z1 x2 y2 z2 where r: "r1 = (x1, y1, z1)" "r2 = (x2, y2, z2)"
    by (cases r1; cases r2) auto
  obtain a1 b1 d1 a2 b2 d2 where l: "ls1 = (a1, b1, d1)" "ls2 = (a2, b2, d2)"
    by (cases ls1; cases ls2) auto
  show ?thesis
    using assms unfolding r l
    by (simp add: sab_unfolded_fp_def sab_unfolded_def primitive_product_def Let_def
        lift_externals_def fin_integral_def fin3_def vmap_def vzip_def np_prod_def)
qed

lemma apply_contraction_fp_lift:
  assumes "list_all (\<lambda>e. 0 < e) (snd ps_i)" and "list_all (\<lambda>e. 0 < e) (snd ps_j)"
  shows "apply_contraction_fp (lift_externals ext) xyz_0 xyz_1 li lj ps_i ps_j
         = map_sum id Fin (apply_contraction ext xyz_0 xyz_1 li lj ps_i ps_j)"
proof -
  obtain csi esi csj esj where p: "ps_i = (csi, esi)" "ps_j = (csj, esj)"
    by (cases ps_i; cases ps_j) auto
  show ?thesis
  proof (cases "length csj = length csi \<and> length esi = length csi \<and> length esj = length csi
               \<and> csi \<noteq> []")
    case False
    then show ?thesis unfolding p
      by (auto simp: apply_contraction_fp_def apply_contraction_def)
  next
    case True
    let ?g = "\<lambda>k. sab_unfolded ext xyz_0 xyz_1 (orb_components ext li) (orb_components ext lj)
                    (csi ! k) (csj ! k) (esi ! k) (esj ! k)"
    have "map (\<lambda>k. sab_unfolded_fp (lift_externals ext) xyz_0 xyz_1
                    (orb_components_fp (lift_externals ext) li)
                    (orb_components_fp (lift_externals ext) lj)
                    (csi ! k) (csj ! k) (esi ! k) (esj ! k)) [0..<length csi]
          = map (\<lambda>k. map_sum id Fin (?g k)) [0..<length csi]"
    proof (rule map_cong [OF refl])
      fix k assume "k \<in> set [0..<length csi]"
      then have k: "k < length csi" by simp
      with True assms p have "0 < esi ! k" "0 < esj ! k" by (auto simp: list_all_length)
      then have "esi ! k + esj ! k \<noteq> 0" by simp
      then show "sab_unfolded_fp (lift_externals ext) xyz_0 xyz_1
                    (orb_components_fp (lift_externals ext) li)
                    (orb_components_fp (lift_externals ext) lj)
                    (csi ! k) (csj ! k) (esi ! k) (esj ! k) = map_sum id Fin (?g k)"
        unfolding orb_components_fp_lift by (rule sab_unfolded_fp_lift)
    qed
    then have "collect (map (\<lambda>k. sab_unfolded_fp (lift_externals ext) xyz_0 xyz_1
                    (orb_components_fp (lift_externals ext) li)
                    (orb_components_fp (lift_externals ext) lj)
                    (csi ! k) (csj ! k) (esi ! k) (esj ! k)) [0..<length csi])
          = map_sum id (map Fin) (collect (map ?g [0..<length csi]))"
      by (simp only: collect_map_sum)
    then show ?thesis
      using True unfolding p
      by (cases "collect (map ?g [0..<length csi])")
         (simp_all add: apply_contraction_fp_def apply_contraction_def Let_def sum_list_Fin)
  qed
qed

lemma calc_overlap_atom_fp_lift:
  assumes "list_all (\<lambda>e. 0 < e) (snd (primitives cgf_i))"
    and "\<And>c. c \<in> set cgfs \<Longrightarrow> list_all (\<lambda>e. 0 < e) (snd (primitives c))"
  shows "calc_overlap_atom_fp (lift_externals ext) xyz_0 cgf_i xyz_1 cgfs
         = map_sum id (map Fin) (calc_overlap_atom ext xyz_0 cgf_i xyz_1 cgfs)"
proof -
  have "map (\<lambda>cgf_j. apply_contraction_fp (lift_externals ext) xyz_0 xyz_1
                         (orbType cgf_i) (orbType cgf_j) (primitives cgf_i) (primitives cgf_j)) cgfs
        = map (\<lambda>cgf_j. map_sum id Fin (apply_contraction ext xyz_0 xyz_1
                         (orbType cgf_i) (orbType cgf_j) (primitives cgf_i) (primitives cgf_j))) cgfs"
    by (rule map_cong [OF refl]) (simp add: apply_contraction_fp_lift assms)
  then show ?thesis
    unfolding calc_overlap_atom_fp_def calc_overlap_atom_def
    by (simp only: collect_map_sum)
qed

lemma slice_assign_map:
  "slice_assign (map f row) acc (map f vs) = map_sum id (map f) (slice_assign row acc vs)"
proof -
  have hd: "hd (map f vs) = f (hd vs)" if "length vs = 1"
    using that by (cases vs) simp_all
  show ?thesis
  proof (cases "length vs = min (acc + length vs) (length row) - min acc (length row)")
    case True
    then show ?thesis
      unfolding slice_assign_def Let_def by (simp add: take_map drop_map)
  next
    case False
    show ?thesis
    proof (cases "length vs = 1")
      case one: True
      with False hd show ?thesis
        unfolding slice_assign_def Let_def by (simp add: take_map drop_map)
    next
      case other: False
      with False show ?thesis
        unfolding slice_assign_def Let_def by simp
    qed
  qed
qed

lemma overlap_row_loop_fp_lift:
  assumes "list_all (\<lambda>e. 0 < e) (snd (primitives cgf_i))"
    and "\<And>s cgfs c. dictCGFs s = Some cgfs \<Longrightarrow> c \<in> set cgfs \<Longrightarrow>
           list_all (\<lambda>e. 0 < e) (snd (primitives c))"
  shows "overlap_row_loop_fp (lift_externals ext) dictCGFs xyz_0 cgf_i mol1 (map Fin row) acc
         = map_sum id (map Fin) (overlap_row_loop ext dictCGFs xyz_0 cgf_i mol1 row acc)"
proof (induction mol1 arbitrary: row acc)
  case Nil
  show ?case by simp
next
  case (Cons a mol1)
  show ?case
  proof (cases "dictCGFs (symbol a)")
    case None
    then show ?thesis by (simp add: dict_get_def)
  next
    case (Some cgfs)
    have at: "calc_overlap_atom_fp (lift_externals ext) xyz_0 cgf_i (xyz a) cgfs
              = map_sum id (map Fin) (calc_overlap_atom ext xyz_0 cgf_i (xyz a) cgfs)"
      by (rule calc_overlap_atom_fp_lift [OF assms(1)]) (rule assms(2) [OF Some])
    show ?thesis
    proof (cases "calc_overlap_atom ext xyz_0 cgf_i (xyz a) cgfs")
      case (Inl e)
      with at Some show ?thesis by (simp add: dict_get_def)
    next
      case (Inr vs)
      show ?thesis
      proof (cases "slice_assign row acc vs")
        case (Inl e)
        with at Inr Some slice_assign_map [of Fin row acc vs] show ?thesis
          by (simp add: dict_get_def)
      next
        case r: (Inr row')
        with at Inr Some slice_assign_map [of Fin row acc vs] Cons.IH [of row' "acc + length cgfs"]
        show ?thesis by (simp add: dict_get_def)
      qed
    qed
  qed
qed

lemma calc_overlap_row_fp_lift:
  assumes "list_all (\<lambda>e. 0 < e) (snd (primitives cgf_i))"
    and "\<And>s cgfs c. dictCGFs s = Some cgfs \<Longrightarrow> c \<in> set cgfs \<Longrightarrow>
           list_all (\<lambda>e. 0 < e) (snd (primitives c))"
  shows "calc_overlap_row_fp (lift_externals ext) (\<lambda>k. Fin (u k)) dictCGFs mol1 dimn xyz_0 cgf_i
         = map_sum id (map Fin) (calc_overlap_row ext u dictCGFs mol1 dimn xyz_0 cgf_i)"
proof -
  have "np_empty (\<lambda>k. Fin (u k)) dimn = map Fin (np_empty u dimn)"
    by (simp add: np_empty_def)
  then show ?thesis
    unfolding calc_overlap_row_fp_def calc_overlap_row_def
    by (simp only: overlap_row_loop_fp_lift [OF assms])
qed

lemma getitem_in_set: "getitem xs k = Inr c \<Longrightarrow> c \<in> set xs"
  by (auto simp: getitem_def Let_def split: if_splits)

lemma lookup_cgf_in_basis:
  assumes "lookup_cgf atoms dictCGFs i = Inr (p, c)"
  shows "\<exists>s cgfs. dictCGFs s = Some cgfs \<and> c \<in> set cgfs"
  using assms
  by (auto simp: lookup_cgf_def dict_get_def
      split: if_splits sum.splits option.splits prod.splits dest!: getitem_in_set)

lemma overlap_rows_fp_lift:
  assumes "\<And>s cgfs c. dictCGFs s = Some cgfs \<Longrightarrow> c \<in> set cgfs \<Longrightarrow>
           list_all (\<lambda>e. 0 < e) (snd (primitives c))"
  shows "overlap_rows_fp (lift_externals ext) (\<lambda>i k. Fin (u i k)) dictCGFs dimn mol0 mol1
         = map_sum id (map (map Fin)) (overlap_rows ext u dictCGFs dimn mol0 mol1)"
proof -
  have "apply_nested (calc_overlap_row_fp (lift_externals ext) (\<lambda>k. Fin (u i k)) dictCGFs mol1 dimn)
           (lookup_cgf mol0 dictCGFs) (int i)
        = map_sum id (map Fin)
            (apply_nested (calc_overlap_row ext (u i) dictCGFs mol1 dimn)
               (lookup_cgf mol0 dictCGFs) (int i))" for i
  proof (cases "lookup_cgf mol0 dictCGFs (int i)")
    case (Inl e)
    then show ?thesis by (simp add: apply_nested_def)
  next
    case (Inr r)
    obtain p c where r: "r = (p, c)" by (cases r) auto
    from lookup_cgf_in_basis [OF Inr [unfolded r]] assms
    have "list_all (\<lambda>e. 0 < e) (snd (primitives c))" by blast
    from calc_overlap_row_fp_lift [OF this assms] Inr r show ?thesis
      by (simp add: apply_nested_def)
  qed
  then show ?thesis
    unfolding overlap_rows_fp_def overlap_rows_def
    by (simp only: collect_map_sum)
qed

lemma np_stack_fin: "np_stack (map (map Fin) xss) = map_sum id fin_matrix (np_stack xss)"
  by (cases xss) (simp_all add: np_stack_def fin_matrix_def list_all_iff)

lemma fin_matrix_mk_matrix:
  "fin_matrix (mk_matrix r c f) = mk_matrix r c (\<lambda>i j. Fin (f i j))"
  by (simp add: fin_matrix_def mk_matrix_def)

lemma shape_fin_matrix [simp]:
  "nrows (fin_matrix m) = nrows m" "ncols (fin_matrix m) = ncols m"
  by (simp_all add: fin_matrix_def nrows_def)

lemma entry_fin_matrix:
  assumes "is_array m" and "i < nrows m" and "j < ncols m"
  shows "entry (fin_matrix m) i j = Fin (entry m i j)"
  using assms by (simp add: fin_matrix_def entry_def nrows_def is_array_def list_all_length)

lemma np_transpose_fin:
  assumes "is_array m"
  shows "np_transpose (fin_matrix m) = fin_matrix (np_transpose m)"
  unfolding np_transpose_def fin_matrix_mk_matrix
  by (simp, rule mk_matrix_cong) (simp add: entry_fin_matrix assms)

lemma np_dot_fin:
  assumes "is_array a" and "is_array b"
  shows "np_dot (fin_matrix a) (fin_matrix b) = map_sum id fin_matrix (np_dot a b)"
proof (cases "ncols a = nrows b")
  case False
  then show ?thesis by (simp add: np_dot_def)
next
  case True
  have "mk_matrix (nrows a) (ncols b)
          (\<lambda>i j. \<Sum>k<ncols a. entry (fin_matrix a) i k * entry (fin_matrix b) k j)
        = mk_matrix (nrows a) (ncols b) (\<lambda>i j. Fin (\<Sum>k<ncols a. entry a i k * entry b k j))"
  proof (rule mk_matrix_cong)
    fix i j assume ij: "i < nrows a" "j < ncols b"
    have "(\<Sum>k<ncols a. entry (fin_matrix a) i k * entry (fin_matrix b) k j)
          = (\<Sum>k<ncols a. Fin (entry a i k * entry b k j))"
      using ij True assms by (intro sum.cong) (simp_all add: entry_fin_matrix)
    then show "(\<Sum>k<ncols a. entry (fin_matrix a) i k * entry (fin_matrix b) k j)
          = Fin (\<Sum>k<ncols a. entry a i k * entry b k j)"
      by (simp only: sum_Fin)
  qed
  with True show ?thesis by (simp add: np_dot_def fin_matrix_mk_matrix)
qed

lemma is_array_np_dot: "np_dot a b = Inr m \<Longrightarrow> is_array m"
  by (auto simp: np_dot_def split: if_splits)

lemma calcOverlapMtx_fp_lift:
  assumes pos: "\<And>s cgfs c. dictCGFs s = Some cgfs \<Longrightarrow> c \<in> set cgfs \<Longrightarrow>
           list_all (\<lambda>e. 0 < e) (snd (primitives c))"
    and arr: "case trans_mtx of None \<Rightarrow> True | Some t \<Rightarrow> is_array t"
  shows "calcOverlapMtx_fp (lift_externals ext) (\<lambda>i k. Fin (u i k)) (map_option fin_matrix trans_mtx)
           dictCGFs dimn mol0 mol1
         = map_sum id fin_matrix (calcOverlapMtx ext u trans_mtx dictCGFs dimn mol0 mol1)"
proof (cases "overlap_rows ext u dictCGFs dimn mol0 mol1")
  case (Inl e)
  with overlap_rows_fp_lift [where ext = ext and u = u and dimn = dimn and ?mol0.0 = mol0 and ?mol1.0 = mol1, OF pos] show ?thesis
    by (simp add: calcOverlapMtx_fp_def calcOverlapMtx_def)
next
  case (Inr xss)
  note rows = overlap_rows_fp_lift [where ext = ext and u = u and dimn = dimn and ?mol0.0 = mol0 and ?mol1.0 = mol1, OF pos, unfolded Inr]
  show ?thesis
  proof (cases "np_stack xss")
    case (Inl e)
    with rows Inr np_stack_fin [of xss] show ?thesis
      by (simp add: calcOverlapMtx_fp_def calcOverlapMtx_def)
  next
    case suv: (Inr suv)
    from overlap_rows_shape [OF Inr] np_stack_shape [OF suv]
    have "suv = Matrix dimn xss" "list_all (\<lambda>r. length r = dimn) xss" by auto
    then have asuv: "is_array suv" by (simp add: is_array_def)
    show ?thesis
    proof (cases trans_mtx)
      case None
      with rows Inr suv np_stack_fin [of xss] show ?thesis
        by (simp add: calcOverlapMtx_fp_def calcOverlapMtx_def)
    next
      case (Some t)
      with arr have at: "is_array t" by simp
      have d1: "np_dot (fin_matrix suv) (np_transpose (fin_matrix t))
                = map_sum id fin_matrix (np_dot suv (np_transpose t))"
        unfolding np_transpose_fin [OF at]
        by (rule np_dot_fin [OF asuv]) (simp add: np_transpose_def)
      show ?thesis
      proof (cases "np_dot suv (np_transpose t)")
        case (Inl e)
        with d1 rows Inr suv Some np_stack_fin [of xss] show ?thesis
          by (simp add: calcOverlapMtx_fp_def calcOverlapMtx_def)
      next
        case m: (Inr m)
        from np_dot_fin [OF at is_array_np_dot [OF m]] d1 m rows Inr suv Some np_stack_fin [of xss]
        show ?thesis
          by (simp add: calcOverlapMtx_fp_def calcOverlapMtx_def)
      qed
    qed
  qed
qed

section \<open>The claims\<close>

text \<open>
  C1. For every geometry, basis and global index \<open>i\<close> below the dimension, the lookup
  returns the coordinate of the atom whose block holds \<open>i\<close> and the CGF at the offset
  of \<open>i\<close> in that block, taken from that atom's own list, also when atoms differ in
  their numbers of CGFs. On a hydrogen atom followed by a carbon atom the code finds
  the owning atom but reads the CGF from the list of the first atom: at index 1 it
  returns the hydrogen CGF with the carbon coordinate, and at index 2 it raises
  IndexError.
\<close>

theorem lookup_cgf_mixed_basis:
  "basis_dim mixed_basis mixed_atoms = Inr 3 \<and>
   lookup_cgf mixed_atoms mixed_basis 1 = Inr ((1, 0, 0), cgf_h) \<and>
   block_lookup mixed_atoms mixed_basis 1 = Some ((1, 0, 0), cgf_c_s) \<and>
   cgf_h \<noteq> cgf_c_s \<and>
   lookup_cgf mixed_atoms mixed_basis 2 = Inl IndexError \<and>
   block_lookup mixed_atoms mixed_basis 2 = Some ((1, 0, 0), cgf_c_px)"
  by (simp add: mixed_basis_def mixed_atoms_def lookup_cgf_def dict_get_def getitem_def
      cgf_h_def cgf_c_s_def cgf_c_px_def)

text \<open>
  C10. When all atoms have one symbol, the lookup of the code agrees with the lookup
  by blocks at every index from 0 up to the dimension: both are defined and give the
  same coordinate and the same CGF.
\<close>

theorem lookup_cgf_single_symbol:
  assumes same: "\<forall>a\<in>set atoms. symbol a = s"
    and dim: "basis_dim dictCGFs atoms = Inr n"
    and lo: "0 \<le> i" and hi: "i < int n"
  shows "\<exists>r. block_lookup atoms dictCGFs (nat i) = Some r \<and> lookup_cgf atoms dictCGFs i = Inr r"
proof -
  from dim hi lo obtain a0 rest where atoms: "atoms = a0 # rest"
    by (cases atoms) auto
  from dim atoms obtain cs where cs0: "dictCGFs (symbol a0) = Some cs"
    by (auto simp: dict_get_def split: option.splits sum.splits)
  have s: "symbol a0 = s" using same atoms by simp
  have all: "\<forall>a\<in>set atoms. dictCGFs (symbol a) = Some cs"
    using same cs0 s by simp
  have n: "n = length atoms * length cs"
    using basis_dim_uniform [OF all] dim by simp
  have ne: "cs \<noteq> []" using n hi lo by auto
  show ?thesis
  proof (cases "i = 0")
    case True
    have "lookup_cgf atoms dictCGFs i = Inr (xyz a0, cs ! 0)"
      using True atoms cs0 ne by (simp add: lookup_cgf_def getitem_def dict_get_def)
    moreover have "block_lookup atoms dictCGFs (nat i) = Some (xyz a0, cs ! 0)"
      using True atoms cs0 ne by simp
    ultimately show ?thesis by blast
  next
    case False
    then have ipos: "0 < i" using lo by simp
    have blocks: "\<forall>a\<in>set atoms. \<exists>cs. dictCGFs (symbol a) = Some cs \<and> cs \<noteq> []"
      using all ne by simp
    from lookup_loop_block [OF blocks ipos _ _ dim, of 0 None] hi ipos
    obtain a cs' k where a: "a \<in> set atoms" "dictCGFs (symbol a) = Some cs'" "k < length cs'"
      "lookup_loop dictCGFs i atoms 0 None = Inr (Some (xyz a), Some (int k))"
      "block_lookup atoms dictCGFs (nat i) = Some (xyz a, cs' ! k)"
      by auto
    have eq: "cs' = cs" using a(1,2) all by simp
    have "lookup_cgf atoms dictCGFs i = Inr (xyz a, cs ! k)"
      using False a(3,4) atoms cs0 eq getitem_nat [of k cs]
      by (simp add: lookup_cgf_def dict_get_def getitem_def)
    then show ?thesis using a(5) eq by blast
  qed
qed

theorem lookup_cgf_single_symbol_witness:
  "map symbol carbon_atoms = [''C'', ''C''] \<and>
   basis_dim mixed_basis carbon_atoms = Inr 4 \<and> (0::int) \<le> 3 \<and> (3::int) < int 4 \<and>
   (\<exists>r. block_lookup carbon_atoms mixed_basis (nat 3) = Some r \<and>
        lookup_cgf carbon_atoms mixed_basis 3 = Inr r)"
proof -
  have h1: "\<forall>a\<in>set carbon_atoms. symbol a = ''C''"
    by (simp add: carbon_atoms_def)
  have h2: "basis_dim mixed_basis carbon_atoms = Inr 4"
    by (simp add: carbon_atoms_def mixed_basis_def dict_get_def)
  have h3: "(0::int) \<le> 3" and h4: "(3::int) < int 4" by simp_all
  have h0: "map symbol carbon_atoms = [''C'', ''C'']"
    by (simp add: carbon_atoms_def)
  from lookup_cgf_single_symbol [OF h1 h2 h3 h4] h0 h2 show ?thesis by simp
qed

text \<open>
  C2. The contraction-level entry is the sum over all pairs of primitives of the two
  CGFs, and is defined also when the CGFs differ in their numbers of primitives. The
  code stacks the coefficient and exponent arrays and sums over the columns: with one
  primitive against two it raises ValueError, and with two against two, all four
  primitives being the same Gaussian with coefficient 1, its sum has two terms where
  the sum over all pairs has four.
\<close>

theorem apply_contraction_omits_cross_terms:
  "apply_contraction ext_s (0, 0, 0) (0, 0, 0) ''S'' ''S'' ([1], [1/2]) ([1, 1], [1/2, 1/2])
     = Inl ValueError \<and>
   apply_contraction ext_s (0, 0, 0) (0, 0, 0) ''S'' ''S'' ([1, 1], [1/2, 1/2]) ([1, 1], [1/2, 1/2])
     = Inr (2 * (pi * sqrt pi)) \<and>
   full_contraction ext_s (0, 0, 0) (0, 0, 0) ''S'' ''S'' ([1, 1], [1/2, 1/2]) ([1, 1], [1/2, 1/2])
     = 4 * (pi * sqrt pi) \<and>
   2 * (pi * sqrt pi) \<noteq> 4 * (pi * sqrt pi)"
proof -
  have "pi * sqrt pi > 0" by simp
  then have "2 * (pi * sqrt pi) \<noteq> 4 * (pi * sqrt pi)" by simp
  then show ?thesis
    by (simp add: apply_contraction_def sab_unfolded_def full_contraction_def Let_def
        primitive_product_ext_s lessThan_Suc numeral_2_eq_2)
qed

text \<open>
  C3. Whenever the coupling estimator returns a matrix \<open>M\<close> for coefficient matrices
  with \<open>n\<close> columns each, \<open>M\<close> is an \<open>n \<times> n\<close> matrix equal to the negative of its
  transpose, and its diagonal is zero.
\<close>

theorem coupling_antisymmetric:
  assumes "calculateCoupling3Points ext u (g0, g1, g2) (css0, css1, css2) dictCGFs dt trans_mtx = Inr M"
    and "ncols css0 = n" and "ncols css1 = n" and "ncols css2 = n"
  shows "nrows M = n \<and> ncols M = n \<and> M = np_scale (- 1) (np_transpose M) \<and>
         (\<forall>i<n. entry M i i = 0)"
proof -
  from coupling_returned [OF assms] obtain S0 S1
    where M: "M = three_point_formula n S0 S1 css0 css1 css2 dt" by auto
  have sh: "nrows M = n" "ncols M = n"
    by (simp_all add: M three_point_formula_def Let_def)
  have anti: "entry M i j = - entry M j i" if "i < n" "j < n" for i j
    unfolding M using assms(2-4) that by (rule three_point_formula_antisym)
  have "M = mk_matrix n n (entry M)"
    unfolding M three_point_formula_def Let_def by (rule mk_matrix_cong) simp
  also have "\<dots> = mk_matrix n n (\<lambda>i j. - 1 * entry (np_transpose M) i j)"
  proof (rule mk_matrix_cong)
    fix i j assume ij: "i < n" "j < n"
    then have "entry (np_transpose M) i j = entry M j i" using sh by simp
    moreover have "entry M i j = - entry M j i" using ij by (rule anti)
    ultimately show "entry M i j = - 1 * entry (np_transpose M) i j" by linarith
  qed
  also have "\<dots> = np_scale (- 1) (np_transpose M)"
    using sh by (simp add: np_scale_def)
  finally have eq: "M = np_scale (- 1) (np_transpose M)" .
  have "entry M i i = 0" if "i < n" for i
    using anti [OF that that] by linarith
  with sh eq show ?thesis by simp
qed

theorem coupling_antisymmetric_witness:
  "calculateCoupling3Points ext_s (\<lambda>c i k. 0) ([cd_atom], [cd_atom], [cd_atom])
     (Matrix 2 [[1, 0]], Matrix 2 [[0, 1]], Matrix 2 [[1, 1]]) cd_basis 1 None
     = Inr (Matrix 2 [[0, - (pi * sqrt pi)], [pi * sqrt pi, 0]]) \<and>
   ncols (Matrix 2 [[1, 0]]) = 2 \<and> ncols (Matrix 2 [[0, 1]]) = 2 \<and> ncols (Matrix 2 [[1, 1]]) = 2 \<and>
   nrows (Matrix 2 [[0, - (pi * sqrt pi)], [pi * sqrt pi, 0]]) = 2 \<and>
   ncols (Matrix 2 [[0, - (pi * sqrt pi)], [pi * sqrt pi, 0]]) = 2 \<and>
   Matrix 2 [[0, - (pi * sqrt pi)], [pi * sqrt pi, 0]]
     = np_scale (- 1) (np_transpose (Matrix 2 [[0, - (pi * sqrt pi)], [pi * sqrt pi, 0]])) \<and>
   entry (Matrix 2 [[0, - (pi * sqrt pi)], [pi * sqrt pi, 0]]) 0 0 = 0 \<and>
   entry (Matrix 2 [[0, - (pi * sqrt pi)], [pi * sqrt pi, 0]]) 1 1 = 0"
proof -
  have h: "calculateCoupling3Points ext_s (\<lambda>c i k. 0) ([cd_atom], [cd_atom], [cd_atom])
     (Matrix 2 [[1, 0]], Matrix 2 [[0, 1]], Matrix 2 [[1, 1]]) cd_basis 1 None
     = Inr (Matrix 2 [[0, - (pi * sqrt pi)], [pi * sqrt pi, 0]])"
    using cd_coupling [of 1 "\<lambda>c i k. 0"] by simp
  have n: "ncols (Matrix 2 [[1, 0]]) = 2" "ncols (Matrix 2 [[0, 1]]) = 2"
    "ncols (Matrix 2 [[1, 1]]) = 2" by simp_all
  from coupling_antisymmetric [OF h n] h show ?thesis by simp
qed

text \<open>
  C4. For three frames whose overlap matrices \<open>S0\<close> (previous and current geometry)
  and \<open>S1\<close> (current and next) are computed, coefficient matrices with as many rows
  as those matrices and \<open>n\<close> columns each, and \<open>dt \<noteq> 0\<close>, the coupling estimator
  returns the matrix of the three-point formula.
\<close>

theorem coupling_three_point:
  assumes "basis_dim dictCGFs (map coordinates_to_numpy g0) = Inr dimn"
    and "calcOverlapMtx ext (u 0) trans_mtx dictCGFs dimn
           (map coordinates_to_numpy g0) (map coordinates_to_numpy g1) = Inr S0"
    and "calcOverlapMtx ext (u 1) trans_mtx dictCGFs dimn
           (map coordinates_to_numpy g1) (map coordinates_to_numpy g2) = Inr S1"
    and "nrows css0 = nrows S0" and "nrows css1 = nrows S0" and "nrows css2 = nrows S0"
    and "ncols css0 = n" and "ncols css1 = n" and "ncols css2 = n"
    and "dt \<noteq> 0"
  shows "calculateCoupling3Points ext u (g0, g1, g2) (css0, css1, css2) dictCGFs dt trans_mtx
         = Inr (three_point_formula n S0 S1 css0 css1 css2 dt)"
proof -
  from calcOverlapMtx_shape [OF assms(2)] calcOverlapMtx_shape [OF assms(3)]
  have sq: "ncols S0 = nrows S0" "nrows S1 = nrows S0" "ncols S1 = nrows S0"
    by simp_all
  have sh: "nrows css0 = nrows S0" "ncols S0 = nrows css1"
    "nrows css1 = nrows S1" "ncols S1 = nrows css2"
    using assms(4-6) sq by simp_all
  show ?thesis
    by (rule coupling_steps [OF assms(1-3) sh assms(7-10)])
qed

theorem coupling_three_point_witness:
  "basis_dim cd_basis (map coordinates_to_numpy [cd_atom]) = Inr 1 \<and>
   calcOverlapMtx ext_s (\<lambda>i k. 0) None cd_basis 1
     (map coordinates_to_numpy [cd_atom]) (map coordinates_to_numpy [cd_atom])
     = Inr (Matrix 1 [[pi * sqrt pi]]) \<and>
   nrows (Matrix 2 [[1, 0]]) = nrows (Matrix 1 [[pi * sqrt pi]]) \<and>
   nrows (Matrix 2 [[0, 1]]) = nrows (Matrix 1 [[pi * sqrt pi]]) \<and>
   nrows (Matrix 2 [[1, 1]]) = nrows (Matrix 1 [[pi * sqrt pi]]) \<and>
   ncols (Matrix 2 [[1, 0]]) = 2 \<and> ncols (Matrix 2 [[0, 1]]) = 2 \<and> ncols (Matrix 2 [[1, 1]]) = 2 \<and>
   (1::real) \<noteq> 0 \<and>
   calculateCoupling3Points ext_s (\<lambda>c i k. 0) ([cd_atom], [cd_atom], [cd_atom])
     (Matrix 2 [[1, 0]], Matrix 2 [[0, 1]], Matrix 2 [[1, 1]]) cd_basis 1 None
     = Inr (three_point_formula 2 (Matrix 1 [[pi * sqrt pi]]) (Matrix 1 [[pi * sqrt pi]])
              (Matrix 2 [[1, 0]]) (Matrix 2 [[0, 1]]) (Matrix 2 [[1, 1]]) 1)"
proof -
  have dim: "basis_dim cd_basis (map coordinates_to_numpy [cd_atom]) = Inr 1"
    by (simp add: cd_basis_def cd_atom_def dict_get_def)
  have S: "calcOverlapMtx ext_s (\<lambda>i k. 0) None cd_basis 1
             (map coordinates_to_numpy [cd_atom]) (map coordinates_to_numpy [cd_atom])
           = Inr (Matrix 1 [[pi * sqrt pi]])"
    using cd_overlap [of "\<lambda>i k. 0"] by simp
  have r: "nrows (Matrix 2 [[1, 0]]) = nrows (Matrix 1 [[pi * sqrt pi]])"
    "nrows (Matrix 2 [[0, 1]]) = nrows (Matrix 1 [[pi * sqrt pi]])"
    "nrows (Matrix 2 [[1, 1]]) = nrows (Matrix 1 [[pi * sqrt pi]])"
    by (simp_all add: nrows_def)
  have n: "ncols (Matrix 2 [[1, 0]]) = 2" "ncols (Matrix 2 [[0, 1]]) = 2"
    "ncols (Matrix 2 [[1, 1]]) = 2" by simp_all
  have dt: "(1::real) \<noteq> 0" by simp
  have "calculateCoupling3Points ext_s (\<lambda>c i k. 0) ([cd_atom], [cd_atom], [cd_atom])
     (Matrix 2 [[1, 0]], Matrix 2 [[0, 1]], Matrix 2 [[1, 1]]) cd_basis 1 None
     = Inr (three_point_formula 2 (Matrix 1 [[pi * sqrt pi]]) (Matrix 1 [[pi * sqrt pi]])
              (Matrix 2 [[1, 0]]) (Matrix 2 [[0, 1]]) (Matrix 2 [[1, 1]]) 1)"
    by (rule coupling_three_point [where u = "\<lambda>c i k. 0", OF dim S S r n dt])
  with dim S r n dt show ?thesis by (intro conjI)
qed

text \<open>
  C5. \<open>calculate_overlap\<close> returns the product \<open>C0\<^sup>t \<cdot> S \<cdot> C1\<close> whenever the shapes
  allow it (\<open>S\<close> has as many rows as \<open>C0\<close> and as many columns as \<open>C1\<close> has rows),
  and raises ValueError otherwise. It is a function of its three arguments: it calls
  \<open>np.transpose\<close> and \<open>np.dot\<close> only, and assigns to none of them.
\<close>

theorem calculate_overlap_projection:
  "calculate_overlap S C0 C1 =
     (if ncols S = nrows C1 \<and> nrows C0 = nrows S then Inr (mo_projection S C0 C1)
      else Inl ValueError)"
  by (rule calculate_overlap_entries)

theorem calculate_overlap_projection_witness:
  "calculate_overlap (Matrix 2 [[1, 2], [3, 4]]) (Matrix 1 [[1], [1]]) (Matrix 1 [[1], [0]])
     = Inr (Matrix 1 [[4]])"
  using calculate_overlap_projection
    [of "Matrix 2 [[1, 2], [3, 4]]" "Matrix 1 [[1], [1]]" "Matrix 1 [[1], [0]]"]
  by (simp add: mo_projection_def mk_matrix_def nrows_def entry_def lessThan_Suc numeral_2_eq_2)

text \<open>
  C6. When the builder returns the raw matrix \<open>S\<close> without a transformation, which is
  the stack of the rows it computed, it returns \<open>T \<cdot> S \<cdot> T\<^sup>t\<close> with the
  transformation \<open>T\<close>, \<open>T\<close> having as many columns as the matrix has rows.
\<close>

theorem calcOverlapMtx_spherical:
  assumes "calcOverlapMtx ext u None dictCGFs dimn mol0 mol1 = Inr S"
    and "ncols t = dimn"
  shows "(\<exists>xss. overlap_rows ext u dictCGFs dimn mol0 mol1 = Inr xss \<and> np_stack xss = Inr S) \<and>
         calcOverlapMtx ext u (Some t) dictCGFs dimn mol0 mol1 = Inr (spherical_transform t S)"
proof -
  from assms(1) have "\<exists>xss. overlap_rows ext u dictCGFs dimn mol0 mol1 = Inr xss \<and> np_stack xss = Inr S"
    by (auto simp: calcOverlapMtx_def split: sum.splits)
  moreover have "calcOverlapMtx ext u (Some t) dictCGFs dimn mol0 mol1 = Inr (spherical_transform t S)"
    using assms by (simp add: calcOverlapMtx_transform)
  ultimately show ?thesis by simp
qed

theorem calcOverlapMtx_spherical_witness:
  "calcOverlapMtx ext_s (\<lambda>i k. 0) None cd_basis 1 [cd_atom] [cd_atom]
     = Inr (Matrix 1 [[pi * sqrt pi]]) \<and>
   ncols (Matrix 1 [[2], [3]]) = 1 \<and>
   overlap_rows ext_s (\<lambda>i k. 0) cd_basis 1 [cd_atom] [cd_atom] = Inr [[pi * sqrt pi]] \<and>
   np_stack [[pi * sqrt pi]] = Inr (Matrix 1 [[pi * sqrt pi]]) \<and>
   calcOverlapMtx ext_s (\<lambda>i k. 0) (Some (Matrix 1 [[2], [3]])) cd_basis 1 [cd_atom] [cd_atom]
     = Inr (Matrix 2 [[4 * (pi * sqrt pi), 6 * (pi * sqrt pi)],
                      [6 * (pi * sqrt pi), 9 * (pi * sqrt pi)]])"
proof -
  have h: "calcOverlapMtx ext_s (\<lambda>i k. 0) None cd_basis 1 [cd_atom] [cd_atom]
     = Inr (Matrix 1 [[pi * sqrt pi]])"
    by (rule cd_overlap)
  have c: "ncols (Matrix 1 [[2], [3]]) = 1" by simp
  have st: "np_stack [[pi * sqrt pi]] = Inr (Matrix 1 [[pi * sqrt pi]])"
    by (simp add: np_stack_def)
  have sp: "spherical_transform (Matrix 1 [[2], [3]]) (Matrix 1 [[pi * sqrt pi]])
            = Matrix 2 [[4 * (pi * sqrt pi), 6 * (pi * sqrt pi)],
                      [6 * (pi * sqrt pi), 9 * (pi * sqrt pi)]]"
    by (simp add: spherical_transform_def mk_matrix_def nrows_def entry_def numeral_2_eq_2)
  from calcOverlapMtx_spherical [OF h c] obtain xss where
    x: "overlap_rows ext_s (\<lambda>i k. 0) cd_basis 1 [cd_atom] [cd_atom] = Inr xss"
       "np_stack xss = Inr (Matrix 1 [[pi * sqrt pi]])"
    and t: "calcOverlapMtx ext_s (\<lambda>i k. 0) (Some (Matrix 1 [[2], [3]])) cd_basis 1 [cd_atom] [cd_atom]
     = Inr (spherical_transform (Matrix 1 [[2], [3]]) (Matrix 1 [[pi * sqrt pi]]))"
    by auto
  from x(2) have "xss = [[pi * sqrt pi]]"
    by (cases xss) (auto simp: np_stack_def split: if_splits)
  with x h c st t sp show ?thesis by simp
qed

text \<open>
  C9. One atom whose basis has a single s-type CGF of one primitive, with coefficient 1
  and a positive exponent, the same geometry and the same coefficient matrix (\<open>n\<close>
  columns) at the three frames, and \<open>dt = 1\<close>: the coupling estimator returns the
  \<open>n \<times> n\<close> matrix of zeros, without a transformation and with one.
\<close>

theorem single_atom_zero_coupling:
  assumes "dictCGFs s = Some [\<lparr>primitives = ([1], [e]), orbType = ''S''\<rparr>]"
    and "0 < e" and "ncols C = n"
    and "case trans_mtx of None \<Rightarrow> nrows C = 1 | Some t \<Rightarrow> ncols t = 1 \<and> nrows C = nrows t"
  shows "calculateCoupling3Points ext u
           ([\<lparr>symbol = s, xyz = p\<rparr>], [\<lparr>symbol = s, xyz = p\<rparr>], [\<lparr>symbol = s, xyz = p\<rparr>])
           (C, C, C) dictCGFs 1 trans_mtx
         = Inr (mk_matrix n n (\<lambda>i j. 0))"
proof (cases trans_mtx)
  case None
  with assms(4) have r: "nrows C = 1" by simp
  have "calculateCoupling3Points ext u
           ([\<lparr>symbol = s, xyz = p\<rparr>], [\<lparr>symbol = s, xyz = p\<rparr>], [\<lparr>symbol = s, xyz = p\<rparr>])
           (C, C, C) dictCGFs 1 None
         = Inr (mk_matrix n n (\<lambda>i j. 0))"
    by (rule single_atom_coupling [where dictCGFs = dictCGFs and s = s and c = 1 and e = e
          and cgf = "\<lparr>primitives = ([1], [e]), orbType = ''S''\<rparr>"])
       (simp_all add: assms(1-3) r)
  with None show ?thesis by simp
next
  case (Some t)
  with assms(4) have r: "ncols t = 1" "nrows C = nrows t" by simp_all
  have "calculateCoupling3Points ext u
           ([\<lparr>symbol = s, xyz = p\<rparr>], [\<lparr>symbol = s, xyz = p\<rparr>], [\<lparr>symbol = s, xyz = p\<rparr>])
           (C, C, C) dictCGFs 1 (Some t)
         = Inr (mk_matrix n n (\<lambda>i j. 0))"
    by (rule single_atom_coupling_transform [where dictCGFs = dictCGFs and s = s and c = 1 and e = e
          and cgf = "\<lparr>primitives = ([1], [e]), orbType = ''S''\<rparr>"])
       (simp_all add: assms(1-3) r)
  with Some show ?thesis by simp
qed

theorem single_atom_zero_coupling_witness:
  "cd_basis ''Cd'' = Some [\<lparr>primitives = ([1], [1/2]), orbType = ''S''\<rparr>] \<and>
   (0::real) < 1/2 \<and> ncols (Matrix 2 [[1, 2]]) = 2 \<and> nrows (Matrix 2 [[1, 2]]) = 1 \<and>
   calculateCoupling3Points ext_s (\<lambda>c i k. 0) ([cd_atom], [cd_atom], [cd_atom])
     (Matrix 2 [[1, 2]], Matrix 2 [[1, 2]], Matrix 2 [[1, 2]]) cd_basis 1 None
     = Inr (Matrix 2 [[0, 0], [0, 0]])"
proof -
  have h1: "cd_basis ''Cd'' = Some [\<lparr>primitives = ([1], [1/2]), orbType = ''S''\<rparr>]"
    by (simp add: cd_basis_def cd_cgf_def)
  have h2: "(0::real) < 1/2" by simp
  have h3: "ncols (Matrix 2 [[1, 2]]) = 2" by simp
  have h4: "case None of None \<Rightarrow> nrows (Matrix 2 [[1, 2]]) = 1
            | Some t \<Rightarrow> ncols t = 1 \<and> nrows (Matrix 2 [[1, 2]]) = nrows t"
    by (simp add: nrows_def)
  from single_atom_zero_coupling [where dictCGFs = cd_basis and s = "''Cd''" and e = "1/2"
      and C = "Matrix 2 [[1, 2]]" and n = 2 and trans_mtx = None and ext = ext_s
      and u = "\<lambda>c i k. 0" and p = "(0, 0, 0)", OF h1 h2 h3 h4] h1 h2
  show ?thesis by (simp add: cd_atom_def mk_matrix_2_2 nrows_def)
qed







end
